theory Spec2Isabelle
  imports Main
begin

section \<open>Spreadsheet documents\<close>

text \<open>
  The tool functions of \<^verbatim>\<open>main.py\<close> open a spreadsheet file, do one operation and
  save it again. The file system is a partial map from paths to files; a file either
  holds a workbook or something the spreadsheet library cannot open. A workbook is the
  ordered list of its named sheets; a sheet is a finite table from (row, column), both
  counted from 1, to cells. A cell carries a value, a font and a fill.

  Cell values are the scalars of the tabular data: null, text, integer, boolean; a
  text that starts with an equals sign is stored as a formula. Floating point numbers
  are left out of the model; the missing value that the table reader reports for an
  empty cell is the null value.
\<close>

datatype scalar = SNull | SText string | SInt int | SBool bool | SFormula string

record font =
  color :: "string option"
  bold :: bool
  size :: "int option"

record pattern_fill =
  fill_type :: "string option"
  start_color :: "string option"
  end_color :: "string option"

record cell =
  cvalue :: scalar
  cfont :: font
  cfill :: pattern_fill

type_synonym worksheet = "((nat \<times> nat) \<times> cell) list"

type_synonym workbook = "(string \<times> worksheet) list"

datatype disk_file = Workbook workbook | NotWorkbook

type_synonym filesystem = "string \<rightharpoonup> disk_file"

text \<open>
  Exceptions of the libraries and of Python itself, as values. Every tool function
  runs in one \<^verbatim>\<open>try: ... except Exception as e\<close> block; the handler turns the
  exception into an error object.
\<close>

datatype exn =
    InvalidFile
  | TypeError
  | ValueError
  | KeyError
  | IndexError
  | AttributeError
  | IllegalCharacterError

text \<open>
  The texts of the error objects. The source writes them in Japanese; the constructors
  stand for the fixed texts and carry the interpolated parts:
  file not found (with the path), unsupported file format, sheet not found (with the
  name), sheet already exists (with the name), the last sheet cannot be deleted, and
  "an error occurred" followed by the text of the caught exception. \<open>NotFoundMsg\<close> is the
  text of the row search that found nothing; it is a message of a success object.
\<close>

datatype message =
    FileNotFound string
  | UnsupportedFormat
  | SheetNotFound string
  | SheetExists string
  | LastSheet
  | Unexpected exn
  | NotFoundMsg string string

text \<open>
  Result objects are Python dictionaries with string keys, in insertion order.
  \<open>JDefaultSheet\<close> is the fixed text the read operations report as the sheet name when
  none was given; \<open>JNote\<close> is the fixed note of \<^verbatim>\<open>read_excel_file\<close>.
\<close>

datatype json =
    JNull
  | JStr string
  | JInt int
  | JBool bool
  | JMsg message
  | JDefaultSheet
  | JNote
  | JList "json list"
  | JObj "(string \<times> json) list"

type_synonym result = "(string \<times> json) list"

definition error_result :: "message \<Rightarrow> result" where
  "error_result m = [(''error'', JMsg m)]"

fun json_of_scalar :: "scalar \<Rightarrow> json" where
  "json_of_scalar SNull = JNull"
| "json_of_scalar (SText s) = JStr s"
| "json_of_scalar (SInt i) = JInt i"
| "json_of_scalar (SBool b) = JBool b"
| "json_of_scalar (SFormula s) = JStr s"

subsection \<open>The workbook library\<close>

text \<open>
  \<^verbatim>\<open>os.path.exists\<close>, \<^verbatim>\<open>openpyxl.load_workbook\<close> and \<^verbatim>\<open>workbook.save\<close>.
  A file holds a workbook when the workbook library opens it, and loading gives that
  workbook. The library opens no file whose name does not end in \<^verbatim>\<open>.xlsx\<close>,
  \<^verbatim>\<open>.xlsm\<close>, \<^verbatim>\<open>.xltx\<close> or \<^verbatim>\<open>.xltm\<close>; this check of the name is not a part of
  the model, in which a workbook at a path stands for a file that the library opens.
  Saving replaces the file at the path.
\<close>

definition path_exists :: "filesystem \<Rightarrow> string \<Rightarrow> bool" where
  "path_exists fs p = (fs p \<noteq> None)"

definition load_workbook :: "filesystem \<Rightarrow> string \<Rightarrow> exn + workbook" where
  "load_workbook fs p =
     (case fs p of Some (Workbook wb) \<Rightarrow> Inr wb | _ \<Rightarrow> Inl InvalidFile)"

definition save :: "filesystem \<Rightarrow> string \<Rightarrow> workbook \<Rightarrow> filesystem" where
  "save fs p wb = fs(p \<mapsto> Workbook wb)"

definition sheetnames :: "workbook \<Rightarrow> string list" where
  "sheetnames wb = map fst wb"

text \<open>\<^verbatim>\<open>Font(**font_kwargs)\<close>: a font of the given fields; every other field has the
  constructor's default. A color must be six or eight hexadecimal digits; six digits
  get the prefix \<^verbatim>\<open>00\<close>. Any other color text raises \<^verbatim>\<open>ValueError\<close>.\<close>

definition default_font :: font where
  "default_font = \<lparr>color = None, bold = False, size = None\<rparr>"

definition default_fill :: pattern_fill where
  "default_fill = \<lparr>fill_type = None, start_color = None, end_color = None\<rparr>"

definition blank_cell :: cell where
  "blank_cell = \<lparr>cvalue = SNull, cfont = default_font, cfill = default_fill\<rparr>"

definition is_hex_digit :: "char \<Rightarrow> bool" where
  "is_hex_digit c = (c \<in> set ''0123456789abcdefABCDEF'')"

definition rgb :: "string \<Rightarrow> exn + string" where
  "rgb s =
     (if (length s = 6 \<or> length s = 8) \<and> list_all is_hex_digit s
      then Inr (if length s = 6 then ''00'' @ s else s)
      else Inl ValueError)"

text \<open>The keyword dictionary \<^verbatim>\<open>font_kwargs\<close> of the source: a field is present when the
  argument is truthy (a non-empty color text, \<^verbatim>\<open>bold = True\<close>, a non-zero size).
  \<open>given_str\<close> and \<open>given_int\<close> are Python's truth tests \<^verbatim>\<open>if font_color:\<close> and
  \<^verbatim>\<open>if font_size:\<close> on an optional argument.\<close>

record font_kwargs =
  kw_color :: "string option"
  kw_bold :: "bool option"
  kw_size :: "int option"

definition given_str :: "string option \<Rightarrow> string option" where
  "given_str s = (case s of None \<Rightarrow> None | Some t \<Rightarrow> if t = [] then None else Some t)"

definition given_int :: "int option \<Rightarrow> int option" where
  "given_int i = (case i of None \<Rightarrow> None | Some n \<Rightarrow> if n = 0 then None else Some n)"

definition make_font_kwargs :: "string option \<Rightarrow> bool \<Rightarrow> int option \<Rightarrow> font_kwargs" where
  "make_font_kwargs font_color bold_arg font_size =
     \<lparr>kw_color = given_str font_color,
      kw_bold = (if bold_arg then Some True else None),
      kw_size = given_int font_size\<rparr>"

definition kwargs_empty :: "font_kwargs \<Rightarrow> bool" where
  "kwargs_empty kw = (kw_color kw = None \<and> kw_bold kw = None \<and> kw_size kw = None)"

definition Font :: "font_kwargs \<Rightarrow> exn + font" where
  "Font kw =
     (case kw_color kw of
        None \<Rightarrow> Inr \<lparr>color = None, bold = (kw_bold kw = Some True), size = kw_size kw\<rparr>
      | Some c \<Rightarrow>
          (case rgb c of
             Inl e \<Rightarrow> Inl e
           | Inr c' \<Rightarrow> Inr \<lparr>color = Some c', bold = (kw_bold kw = Some True), size = kw_size kw\<rparr>))"

definition PatternFill :: "string \<Rightarrow> exn + pattern_fill" where
  "PatternFill bg =
     (case rgb bg of
        Inl e \<Rightarrow> Inl e
      | Inr c \<Rightarrow> Inr \<lparr>fill_type = Some ''solid'', start_color = Some c, end_color = Some c\<rparr>)"

text \<open>Cells of a sheet: a cell that was never written is the blank cell.\<close>

definition get_cell :: "worksheet \<Rightarrow> nat \<times> nat \<Rightarrow> cell" where
  "get_cell ws k = (case map_of ws k of None \<Rightarrow> blank_cell | Some c \<Rightarrow> c)"

fun set_cell :: "worksheet \<Rightarrow> nat \<times> nat \<Rightarrow> cell \<Rightarrow> worksheet" where
  "set_cell [] k c = [(k, c)]"
| "set_cell ((k', c') # ws) k c =
     (if k' = k then (k, c) # ws else (k', c') # set_cell ws k c)"

fun get_sheet :: "workbook \<Rightarrow> string \<Rightarrow> worksheet" where
  "get_sheet [] n = []"
| "get_sheet ((n', ws) # wb) n = (if n' = n then ws else get_sheet wb n)"

fun set_sheet :: "workbook \<Rightarrow> string \<Rightarrow> worksheet \<Rightarrow> workbook" where
  "set_sheet [] n ws = []"
| "set_sheet ((n', ws') # wb) n ws =
     (if n' = n then (n, ws) # wb else (n', ws') # set_sheet wb n ws)"

subsection \<open>Cell addresses\<close>

text \<open>
  Decimal numerals, as \<^verbatim>\<open>str\<close> and the f-string \<^verbatim>\<open>f"{column}{row}"\<close> print an integer.
\<close>

definition digit_char :: "nat \<Rightarrow> char" where
  "digit_char d = char_of (48 + d)"

function show_nat :: "nat \<Rightarrow> string" where
  "show_nat n = (if n < 10 then [digit_char n] else show_nat (n div 10) @ [digit_char (n mod 10)])"
  by pat_completeness auto
termination
  by (relation "measure id") auto

definition show_int :: "int \<Rightarrow> string" where
  "show_int i = (if i < 0 then CHR ''-'' # show_nat (nat (- i)) else show_nat (nat i))"

definition is_digit :: "char \<Rightarrow> bool" where
  "is_digit c = (48 \<le> (of_char c :: nat) \<and> (of_char c :: nat) \<le> 57)"

definition is_upper :: "char \<Rightarrow> bool" where
  "is_upper c = (65 \<le> (of_char c :: nat) \<and> (of_char c :: nat) \<le> 90)"

definition is_lower :: "char \<Rightarrow> bool" where
  "is_lower c = (97 \<le> (of_char c :: nat) \<and> (of_char c :: nat) \<le> 122)"

definition is_alpha :: "char \<Rightarrow> bool" where
  "is_alpha c = (is_upper c \<or> is_lower c)"

definition digit_val :: "char \<Rightarrow> nat" where
  "digit_val c = of_char c - 48"

definition letter_val :: "char \<Rightarrow> nat" where
  "letter_val c = (if is_lower c then of_char c - 96 else of_char c - 64)"

definition digits_val :: "string \<Rightarrow> nat" where
  "digits_val ds = foldl (\<lambda>a c. 10 * a + digit_val c) 0 ds"

definition column_index_from_string :: "string \<Rightarrow> nat" where
  "column_index_from_string ls = foldl (\<lambda>a c. 26 * a + letter_val c) 0 ls"

text \<open>
  A coordinate is one to three letters followed by a row number, as in \<^verbatim>\<open>A1\<close> or
  \<^verbatim>\<open>AB12\<close>; the result is (row, column). A sheet has the rows 1 to 1048576, and
  the library raises \<^verbatim>\<open>ValueError\<close> for a cell of any other row. The library also
  accepts whole columns (\<^verbatim>\<open>A:B\<close>), whole rows (\<^verbatim>\<open>1:3\<close>), absolute markers
  (\<^verbatim>\<open>$A$1\<close>) and, in a range, the row 0 (\<^verbatim>\<open>A0:B2\<close>); these forms are outside the
  model, which treats them like any other text it cannot read.
\<close>

definition row_limit :: int where
  "row_limit = 1048576"

definition parse_coord :: "string \<Rightarrow> (nat \<times> nat) option" where
  "parse_coord s =
     (let ls = takeWhile is_alpha s; ds = dropWhile is_alpha s
      in if 1 \<le> length ls \<and> length ls \<le> 3 \<and> ds \<noteq> [] \<and> list_all is_digit ds
            \<and> 1 \<le> digits_val ds \<and> int (digits_val ds) \<le> row_limit
         then Some (digits_val ds, column_index_from_string ls)
         else None)"

text \<open>
  \<^verbatim>\<open>worksheet[key]\<close>: a key without a colon names one cell and the library returns
  that cell itself; a key \<^verbatim>\<open>A1:C3\<close> names a rectangle and the library returns its rows,
  each a tuple of cells, top to bottom and left to right.
\<close>

datatype selection = OneCell "nat \<times> nat" | CellRows "(nat \<times> nat) list list"

definition iter_rows :: "nat \<Rightarrow> nat \<Rightarrow> nat \<Rightarrow> nat \<Rightarrow> (nat \<times> nat) list list" where
  "iter_rows min_row min_col max_row max_col =
     map (\<lambda>r. map (\<lambda>c. (r, c)) [min_col ..< Suc max_col]) [min_row ..< Suc max_row]"

definition getitem :: "string \<Rightarrow> exn + selection" where
  "getitem key =
     (if CHR '':'' \<in> set key then
        (case (parse_coord (takeWhile (\<lambda>c. c \<noteq> CHR '':'') key),
               parse_coord (tl (dropWhile (\<lambda>c. c \<noteq> CHR '':'') key))) of
           (Some (r1, c1), Some (r2, c2)) \<Rightarrow> Inr (CellRows (iter_rows r1 c1 r2 c2))
         | _ \<Rightarrow> Inl ValueError)
      else
        (case parse_coord key of
           Some k \<Rightarrow> Inr (OneCell k)
         | None \<Rightarrow> Inl ValueError))"

subsection \<open>Cell values and tables\<close>

text \<open>
  What the workbook library stores for a value assigned to a cell: \<^verbatim>\<open>None\<close>,
  integers and booleans are stored as they are. A text is cut to its first 32767
  characters; if a control character other than tab, line feed and carriage return
  is left in it the library raises \<^verbatim>\<open>IllegalCharacterError\<close>; otherwise the text is
  stored, as a formula when it has more than one character and starts with \<^verbatim>\<open>=\<close>. A
  list or a dictionary raises \<^verbatim>\<open>ValueError\<close>.
\<close>

definition is_formula :: "string \<Rightarrow> bool" where
  "is_formula s = (case s of c # d # r \<Rightarrow> c = CHR ''='' | _ \<Rightarrow> False)"

definition illegal_character :: "char \<Rightarrow> bool" where
  "illegal_character c =
     ((of_char c :: nat) \<le> 8 \<or> (of_char c :: nat) = 11 \<or> (of_char c :: nat) = 12
      \<or> (14 \<le> (of_char c :: nat) \<and> (of_char c :: nat) \<le> 31))"

definition cut_text :: "string \<Rightarrow> string" where
  "cut_text s = (if int (length s) \<le> 32767 then s else take 32767 s)"

definition check_string :: "string \<Rightarrow> exn + string" where
  "check_string s =
     (if list_ex illegal_character (cut_text s) then Inl IllegalCharacterError
      else Inr (cut_text s))"

fun to_cell_value :: "json \<Rightarrow> exn + scalar" where
  "to_cell_value JNull = Inr SNull"
| "to_cell_value (JStr s) =
     (case check_string s of
        Inl e \<Rightarrow> Inl e
      | Inr t \<Rightarrow> Inr (if is_formula t then SFormula t else SText t))"
| "to_cell_value (JInt i) = Inr (SInt i)"
| "to_cell_value (JBool b) = Inr (SBool b)"
| "to_cell_value _ = Inl ValueError"

definition set_value :: "worksheet \<Rightarrow> nat \<times> nat \<Rightarrow> scalar \<Rightarrow> worksheet" where
  "set_value ws k v = set_cell ws k ((get_cell ws k)\<lparr>cvalue := v\<rparr>)"

text \<open>
  A Tabular Record Set is a list of rows, each a dictionary from column names to
  values. \<^verbatim>\<open>pd.DataFrame(data)\<close> makes a table of it: its columns are the keys of
  all rows in the order of their first appearance, and a row has the missing value
  where it lacks a key.
\<close>

type_synonym record_set = "(string \<times> json) list list"

record dataframe =
  df_columns :: "json list"
  df_rows :: "json list list"

fun union_keys :: "string list \<Rightarrow> string list \<Rightarrow> string list" where
  "union_keys acc [] = acc"
| "union_keys acc (k # ks) = union_keys (if k \<in> set acc then acc else acc @ [k]) ks"

definition record_set_columns :: "record_set \<Rightarrow> string list" where
  "record_set_columns data = foldl (\<lambda>acc row. union_keys acc (map fst row)) [] data"

definition row_values :: "string list \<Rightarrow> (string \<times> json) list \<Rightarrow> json list" where
  "row_values cols row = map (\<lambda>k. case map_of row k of None \<Rightarrow> JNull | Some v \<Rightarrow> v) cols"

definition DataFrame :: "record_set \<Rightarrow> dataframe" where
  "DataFrame data =
     \<lparr>df_columns = map JStr (record_set_columns data),
      df_rows = map (row_values (record_set_columns data)) data\<rparr>"

definition df_empty :: "dataframe \<Rightarrow> bool" where
  "df_empty df = (df_columns df = [] \<or> df_rows df = [])"

text \<open>
  \<^verbatim>\<open>dataframe_to_rows(df, index=False, header=True)\<close> yields the column names and
  then every row; \<^verbatim>\<open>worksheet.append\<close> writes a row below the rows appended so far.
\<close>

definition dataframe_to_rows :: "dataframe \<Rightarrow> json list list" where
  "dataframe_to_rows df = df_columns df # df_rows df"

fun write_row :: "worksheet \<Rightarrow> nat \<Rightarrow> nat \<Rightarrow> json list \<Rightarrow> exn + worksheet" where
  "write_row ws r c [] = Inr ws"
| "write_row ws r c (v # vs) =
     (case to_cell_value v of
        Inl e \<Rightarrow> Inl e
      | Inr x \<Rightarrow> write_row (set_value ws (r, c) x) r (Suc c) vs)"

fun append_rows :: "worksheet \<Rightarrow> nat \<Rightarrow> json list list \<Rightarrow> exn + worksheet" where
  "append_rows ws r [] = Inr ws"
| "append_rows ws r (vs # rest) =
     (case write_row ws r 1 vs of
        Inl e \<Rightarrow> Inl e
      | Inr ws' \<Rightarrow> append_rows ws' (Suc r) rest)"

subsection \<open>The table reader\<close>

text \<open>
  \<^verbatim>\<open>pd.read_excel(file_path, sheet_name=...)\<close>, as far as the tool functions use it.
  The reader opens the workbook at the path and takes the named sheet, or the first
  sheet when no name is given. A cell is empty when it holds no value, the empty text,
  or a formula (a formula written by the workbook library has no computed value to
  read). The reader takes the rows down to the last row with a value and the columns
  up to the last column with a value; a row without a value above the last row is
  kept. The first row is the header: its cells are the column labels, an empty one
  being labelled \<^verbatim>\<open>Unnamed: i\<close> with \<open>i\<close> counted from 0. The other rows are the
  data: an empty cell is the missing value, and so is a text that is one of the
  reader's default markers of a missing value, such as \<^verbatim>\<open>NA\<close>.

  Outside the model: the reader's renaming of repeated labels (\<^verbatim>\<open>name\<close>,
  \<^verbatim>\<open>name.1\<close>), and its choice of one type for a whole column of data. By that
  choice an integer of a column that also has missing values comes back as a floating
  point number of the same value, a boolean of a column of numbers comes back as 1 or
  0, and the texts of a column in which every text reads as a number or as a truth
  value come back as numbers or as booleans. The properties below that depend on a
  value read are stated for values that this choice leaves alone.
\<close>

definition is_empty_value :: "scalar \<Rightarrow> bool" where
  "is_empty_value v =
     (case v of SNull \<Rightarrow> True | SText s \<Rightarrow> s = [] | SFormula s \<Rightarrow> True | _ \<Rightarrow> False)"

definition used_keys :: "worksheet \<Rightarrow> (nat \<times> nat) list" where
  "used_keys ws = filter (\<lambda>k. \<not> is_empty_value (cvalue (get_cell ws k))) (map fst ws)"

definition last_row :: "worksheet \<Rightarrow> nat" where
  "last_row ws = fold max (map fst (used_keys ws)) 0"

definition last_col :: "worksheet \<Rightarrow> nat" where
  "last_col ws = fold max (map snd (used_keys ws)) 0"

definition read_cell :: "worksheet \<Rightarrow> nat \<times> nat \<Rightarrow> json" where
  "read_cell ws k =
     (if is_empty_value (cvalue (get_cell ws k)) then JNull
      else json_of_scalar (cvalue (get_cell ws k)))"

definition sheet_lines :: "worksheet \<Rightarrow> json list list" where
  "sheet_lines ws =
     map (\<lambda>r. map (\<lambda>c. read_cell ws (r, c)) [1 ..< Suc (last_col ws)])
       [1 ..< Suc (last_row ws)]"

definition header_label :: "nat \<Rightarrow> json \<Rightarrow> json" where
  "header_label i v = (if v = JNull then JStr (''Unnamed: '' @ show_nat i) else v)"

definition na_values :: "string list" where
  "na_values =
     [''#N/A'', ''#N/A N/A'', ''#NA'', ''-1.#IND'', ''-1.#QNAN'', ''-NaN'', ''-nan'',
      ''1.#IND'', ''1.#QNAN'', ''<NA>'', ''N/A'', ''NA'', ''NULL'', ''NaN'', ''None'',
      ''n/a'', ''nan'', ''null'']"

definition na_filter :: "json \<Rightarrow> json" where
  "na_filter v = (case v of JStr s \<Rightarrow> if s \<in> set na_values then JNull else v | _ \<Rightarrow> v)"

definition parse_lines :: "json list list \<Rightarrow> dataframe" where
  "parse_lines lines =
     (case lines of
        [] \<Rightarrow> \<lparr>df_columns = [], df_rows = []\<rparr>
      | header # rest \<Rightarrow>
          \<lparr>df_columns = map (\<lambda>(i, v). header_label i v) (zip [0 ..< length header] header),
           df_rows = map (map na_filter) rest\<rparr>)"

definition read_excel :: "filesystem \<Rightarrow> string \<Rightarrow> string option \<Rightarrow> exn + dataframe" where
  "read_excel fs file_path sheet =
     (case fs file_path of
        Some (Workbook wb) \<Rightarrow>
          (case sheet of
             None \<Rightarrow>
               (case wb of
                  [] \<Rightarrow> Inl IndexError
                | (n, ws) # rest \<Rightarrow> Inr (parse_lines (sheet_lines ws)))
           | Some n \<Rightarrow>
               if n \<in> set (sheetnames wb)
               then Inr (parse_lines (sheet_lines (get_sheet wb n)))
               else Inl ValueError)
      | _ \<Rightarrow> Inl InvalidFile)"

text \<open>
  \<^verbatim>\<open>df.to_dict('records')\<close>: one dictionary per row, from column label to value. A
  label is the dictionary's key; the result objects have text keys, so a label that
  is a number or a boolean is keyed by its printed form. Assigning to a key that is
  there replaces its value, as a Python dictionary does.
\<close>

fun dict_set :: "('k \<times> 'v) list \<Rightarrow> 'k \<Rightarrow> 'v \<Rightarrow> ('k \<times> 'v) list" where
  "dict_set [] k v = [(k, v)]"
| "dict_set ((k', v') # d) k v = (if k' = k then (k, v) # d else (k', v') # dict_set d k v)"

definition make_dict :: "('k \<times> 'v) list \<Rightarrow> ('k \<times> 'v) list" where
  "make_dict kvs = foldl (\<lambda>d (k, v). dict_set d k v) [] kvs"

fun label_key :: "json \<Rightarrow> string" where
  "label_key (JStr s) = s"
| "label_key (JInt i) = show_int i"
| "label_key (JBool b) = (if b then ''True'' else ''False'')"
| "label_key _ = []"

definition to_dict_records :: "dataframe \<Rightarrow> (string \<times> json) list list" where
  "to_dict_records df =
     map (\<lambda>row. make_dict (zip (map label_key (df_columns df)) row)) (df_rows df)"

section \<open>The tool functions\<close>

text \<open>
  Each tool function returns its result object together with the file system it
  leaves behind. The body of the \<^verbatim>\<open>try\<close> block is a function into
  \<open>exn + (result \<times> filesystem)\<close>; \<open>catch\<close> is the \<^verbatim>\<open>except Exception\<close> handler,
  which returns the error object and leaves the files as they were at the call, the
  save being the last step of every body that has one.
\<close>

definition catch :: "filesystem \<Rightarrow> exn + (result \<times> filesystem) \<Rightarrow> result \<times> filesystem" where
  "catch fs body =
     (case body of
        Inl e \<Rightarrow> (error_result (Unexpected e), fs)
      | Inr x \<Rightarrow> x)"

subsection \<open>\<^verbatim>\<open>list_excel_sheets\<close>\<close>

definition list_excel_sheets_body ::
  "filesystem \<Rightarrow> string \<Rightarrow> exn + (result \<times> filesystem)" where
  "list_excel_sheets_body fs file_path =
     (if \<not> path_exists fs file_path then Inr (error_result (FileNotFound file_path), fs)
      else
        (case load_workbook fs file_path of
           Inl e \<Rightarrow> Inl e
         | Inr workbook \<Rightarrow>
             Inr ([(''file_path'', JStr file_path),
                   (''sheets'', JList (map JStr (sheetnames workbook))),
                   (''total_sheets'', JInt (int (length (sheetnames workbook))))], fs)))"

definition list_excel_sheets :: "filesystem \<Rightarrow> string \<Rightarrow> result \<times> filesystem" where
  "list_excel_sheets fs file_path = catch fs (list_excel_sheets_body fs file_path)"

subsection \<open>\<^verbatim>\<open>update_excel_cell\<close>\<close>

text \<open>
  \<^verbatim>\<open>worksheet[cell_address] = value\<close> assigns to the value of the one cell the
  address names; an address that names a rectangle has no value to assign to, and the
  assignment raises.
\<close>

definition setitem :: "worksheet \<Rightarrow> string \<Rightarrow> json \<Rightarrow> exn + worksheet" where
  "setitem ws key v =
     (case getitem key of
        Inl e \<Rightarrow> Inl e
      | Inr (CellRows rows) \<Rightarrow> Inl AttributeError
      | Inr (OneCell k) \<Rightarrow>
          (case to_cell_value v of
             Inl e \<Rightarrow> Inl e
           | Inr x \<Rightarrow> Inr (set_value ws k x)))"

definition update_excel_cell_body ::
  "filesystem \<Rightarrow> string \<Rightarrow> string \<Rightarrow> int \<Rightarrow> string \<Rightarrow> json \<Rightarrow> exn + (result \<times> filesystem)" where
  "update_excel_cell_body fs file_path sheet_name row column v =
     (if \<not> path_exists fs file_path then Inr (error_result (FileNotFound file_path), fs)
      else
        (case load_workbook fs file_path of
           Inl e \<Rightarrow> Inl e
         | Inr workbook \<Rightarrow>
             if sheet_name \<notin> set (sheetnames workbook)
             then Inr (error_result (SheetNotFound sheet_name), fs)
             else
               (let cell_address = column @ show_int row in
                case setitem (get_sheet workbook sheet_name) cell_address v of
                  Inl e \<Rightarrow> Inl e
                | Inr worksheet \<Rightarrow>
                    Inr ([(''status'', JStr ''success''),
                          (''file_path'', JStr file_path),
                          (''sheet_name'', JStr sheet_name),
                          (''cell'', JStr cell_address),
                          (''value'', v)],
                         save fs file_path (set_sheet workbook sheet_name worksheet)))))"

definition update_excel_cell ::
  "filesystem \<Rightarrow> string \<Rightarrow> string \<Rightarrow> int \<Rightarrow> string \<Rightarrow> json \<Rightarrow> result \<times> filesystem" where
  "update_excel_cell fs file_path sheet_name row column v =
     catch fs (update_excel_cell_body fs file_path sheet_name row column v)"

subsection \<open>\<^verbatim>\<open>format_excel_cells\<close>\<close>

text \<open>
  The body of the two loops, for one cell: when \<^verbatim>\<open>font_kwargs\<close> is not empty the
  cell's font becomes \<^verbatim>\<open>Font(**font_kwargs)\<close>, and when a background color is given
  the cell's fill becomes the solid fill of that color. Looking a cell up creates it
  in the sheet when it was not there.
\<close>

definition format_cell ::
  "font_kwargs \<Rightarrow> string option \<Rightarrow> worksheet \<Rightarrow> nat \<times> nat \<Rightarrow> exn + worksheet" where
  "format_cell kw bg_color ws k =
     (case (if kwargs_empty kw then Inr (get_cell ws k)
            else (case Font kw of
                    Inl e \<Rightarrow> Inl e
                  | Inr f \<Rightarrow> Inr ((get_cell ws k)\<lparr>cfont := f\<rparr>))) of
        Inl e \<Rightarrow> Inl e
      | Inr c \<Rightarrow>
          (case given_str bg_color of
             None \<Rightarrow> Inr (set_cell ws k c)
           | Some bg \<Rightarrow>
               (case PatternFill bg of
                  Inl e \<Rightarrow> Inl e
                | Inr p \<Rightarrow> Inr (set_cell ws k (c\<lparr>cfill := p\<rparr>)))))"

fun format_row ::
  "font_kwargs \<Rightarrow> string option \<Rightarrow> worksheet \<Rightarrow> (nat \<times> nat) list \<Rightarrow> exn + worksheet" where
  "format_row kw bg_color ws [] = Inr ws"
| "format_row kw bg_color ws (k # ks) =
     (case format_cell kw bg_color ws k of
        Inl e \<Rightarrow> Inl e
      | Inr ws' \<Rightarrow> format_row kw bg_color ws' ks)"

fun format_rows ::
  "font_kwargs \<Rightarrow> string option \<Rightarrow> worksheet \<Rightarrow> (nat \<times> nat) list list \<Rightarrow> exn + worksheet" where
  "format_rows kw bg_color ws [] = Inr ws"
| "format_rows kw bg_color ws (row # rows) =
     (case format_row kw bg_color ws row of
        Inl e \<Rightarrow> Inl e
      | Inr ws' \<Rightarrow> format_rows kw bg_color ws' rows)"

text \<open>Iterating over a single cell, which \<^verbatim>\<open>worksheet["A1"]\<close> is, raises
  \<^verbatim>\<open>TypeError\<close>.\<close>

definition format_selection ::
  "font_kwargs \<Rightarrow> string option \<Rightarrow> worksheet \<Rightarrow> selection \<Rightarrow> exn + worksheet" where
  "format_selection kw bg_color ws sel =
     (case sel of
        OneCell k \<Rightarrow> Inl TypeError
      | CellRows rows \<Rightarrow> format_rows kw bg_color ws rows)"

definition format_excel_cells_body ::
  "filesystem \<Rightarrow> string \<Rightarrow> string \<Rightarrow> string \<Rightarrow> string option \<Rightarrow> string option \<Rightarrow> bool
     \<Rightarrow> int option \<Rightarrow> exn + (result \<times> filesystem)" where
  "format_excel_cells_body fs file_path sheet_name cell_range font_color bg_color bold_arg font_size =
     (if \<not> path_exists fs file_path then Inr (error_result (FileNotFound file_path), fs)
      else
        (case load_workbook fs file_path of
           Inl e \<Rightarrow> Inl e
         | Inr workbook \<Rightarrow>
             if sheet_name \<notin> set (sheetnames workbook)
             then Inr (error_result (SheetNotFound sheet_name), fs)
             else
               (case getitem cell_range of
                  Inl e \<Rightarrow> Inl e
                | Inr sel \<Rightarrow>
                    (case format_selection (make_font_kwargs font_color bold_arg font_size)
                            bg_color (get_sheet workbook sheet_name) sel of
                       Inl e \<Rightarrow> Inl e
                     | Inr worksheet \<Rightarrow>
                         Inr ([(''status'', JStr ''success''),
                               (''file_path'', JStr file_path),
                               (''sheet_name'', JStr sheet_name),
                               (''cell_range'', JStr cell_range),
                               (''formatting_applied'', JBool True)],
                              save fs file_path (set_sheet workbook sheet_name worksheet))))))"

definition format_excel_cells ::
  "filesystem \<Rightarrow> string \<Rightarrow> string \<Rightarrow> string \<Rightarrow> string option \<Rightarrow> string option \<Rightarrow> bool
     \<Rightarrow> int option \<Rightarrow> result \<times> filesystem" where
  "format_excel_cells fs file_path sheet_name cell_range font_color bg_color bold_arg font_size =
     catch fs (format_excel_cells_body fs file_path sheet_name cell_range font_color bg_color
                 bold_arg font_size)"

subsection \<open>\<^verbatim>\<open>add_excel_sheet\<close>\<close>

text \<open>
  \<^verbatim>\<open>openpyxl.Workbook()\<close> is a new workbook in memory with its one default sheet,
  named \<^verbatim>\<open>Sheet\<close>. \<^verbatim>\<open>create_sheet\<close> adds an empty sheet after the others. (The
  library's own rewriting of titles it does not accept is outside the model.)
\<close>

definition new_workbook :: workbook where
  "new_workbook = [(''Sheet'', [])]"

definition create_sheet :: "workbook \<Rightarrow> string \<Rightarrow> workbook" where
  "create_sheet wb title = wb @ [(title, [])]"

definition add_excel_sheet_body ::
  "filesystem \<Rightarrow> string \<Rightarrow> string \<Rightarrow> record_set option \<Rightarrow> exn + (result \<times> filesystem)" where
  "add_excel_sheet_body fs file_path sheet_name data =
     (case (if \<not> path_exists fs file_path then Inr new_workbook
            else load_workbook fs file_path) of
        Inl e \<Rightarrow> Inl e
      | Inr workbook \<Rightarrow>
          if sheet_name \<in> set (sheetnames workbook)
          then Inr (error_result (SheetExists sheet_name), fs)
          else
            (case (case data of
                     None \<Rightarrow> Inr []
                   | Some rows \<Rightarrow>
                       if rows = [] then Inr []
                       else append_rows [] 1 (dataframe_to_rows (DataFrame rows))) of
               Inl e \<Rightarrow> Inl e
             | Inr worksheet \<Rightarrow>
                 Inr ([(''status'', JStr ''success''),
                       (''file_path'', JStr file_path),
                       (''sheet_name'', JStr sheet_name),
                       (''rows_added'',
                          JInt (case data of None \<Rightarrow> 0 | Some rows \<Rightarrow> int (length rows)))],
                      save fs file_path
                        (set_sheet (create_sheet workbook sheet_name) sheet_name worksheet))))"

definition add_excel_sheet ::
  "filesystem \<Rightarrow> string \<Rightarrow> string \<Rightarrow> record_set option \<Rightarrow> result \<times> filesystem" where
  "add_excel_sheet fs file_path sheet_name data =
     catch fs (add_excel_sheet_body fs file_path sheet_name data)"

subsection \<open>\<^verbatim>\<open>delete_excel_sheet\<close>\<close>

fun remove_sheet :: "workbook \<Rightarrow> string \<Rightarrow> workbook" where
  "remove_sheet [] n = []"
| "remove_sheet ((n', ws) # wb) n = (if n' = n then wb else (n', ws) # remove_sheet wb n)"

definition delete_excel_sheet_body ::
  "filesystem \<Rightarrow> string \<Rightarrow> string \<Rightarrow> exn + (result \<times> filesystem)" where
  "delete_excel_sheet_body fs file_path sheet_name =
     (if \<not> path_exists fs file_path then Inr (error_result (FileNotFound file_path), fs)
      else
        (case load_workbook fs file_path of
           Inl e \<Rightarrow> Inl e
         | Inr workbook \<Rightarrow>
             if sheet_name \<notin> set (sheetnames workbook)
             then Inr (error_result (SheetNotFound sheet_name), fs)
             else if length (sheetnames workbook) = 1
             then Inr (error_result LastSheet, fs)
             else
               Inr ([(''status'', JStr ''success''),
                     (''file_path'', JStr file_path),
                     (''deleted_sheet'', JStr sheet_name),
                     (''remaining_sheets'',
                        JList (map JStr (sheetnames (remove_sheet workbook sheet_name))))],
                    save fs file_path (remove_sheet workbook sheet_name))))"

definition delete_excel_sheet :: "filesystem \<Rightarrow> string \<Rightarrow> string \<Rightarrow> result \<times> filesystem" where
  "delete_excel_sheet fs file_path sheet_name =
     catch fs (delete_excel_sheet_body fs file_path sheet_name)"

subsection \<open>\<^verbatim>\<open>read_excel_file\<close>\<close>

definition ends_with :: "string \<Rightarrow> string \<Rightarrow> bool" where
  "ends_with s suf = (take (length suf) (rev s) = rev suf)"

definition enumerate_from :: "nat \<Rightarrow> 'a list \<Rightarrow> (nat \<times> 'a) list" where
  "enumerate_from n xs = zip [n ..< n + length xs] xs"

definition sheet_name_or_default :: "string option \<Rightarrow> json" where
  "sheet_name_or_default sheet_name =
     (case given_str sheet_name of None \<Rightarrow> JDefaultSheet | Some n \<Rightarrow> JStr n)"

definition data_records :: "dataframe \<Rightarrow> (string \<times> json) list list" where
  "data_records df =
     map (\<lambda>(idx, record). dict_set record ''_excel_row_number'' (JInt (int idx + 2)))
       (enumerate_from 0 (to_dict_records df))"

definition read_excel_file_body ::
  "filesystem \<Rightarrow> string \<Rightarrow> string option \<Rightarrow> exn + (result \<times> filesystem)" where
  "read_excel_file_body fs file_path sheet_name =
     (if \<not> path_exists fs file_path then Inr (error_result (FileNotFound file_path), fs)
      else if \<not> (ends_with file_path ''.xlsx'' \<or> ends_with file_path ''.xls'')
      then Inr (error_result UnsupportedFormat, fs)
      else
        (case read_excel fs file_path (given_str sheet_name) of
           Inl e \<Rightarrow> Inl e
         | Inr df \<Rightarrow>
             Inr ([(''file_path'', JStr file_path),
                   (''sheet_name'', sheet_name_or_default sheet_name),
                   (''shape'', JObj [(''rows'', JInt (int (length (df_rows df)))),
                                     (''columns'', JInt (int (length (df_columns df))))]),
                   (''columns'', JList (df_columns df)),
                   (''data'', JList (map JObj (data_records df))),
                   (''head'', JList (map JObj (take 5 (to_dict_records df)))),
                   (''note'', JNote)], fs)))"

definition read_excel_file :: "filesystem \<Rightarrow> string \<Rightarrow> string option \<Rightarrow> result \<times> filesystem" where
  "read_excel_file fs file_path sheet_name = catch fs (read_excel_file_body fs file_path sheet_name)"

subsection \<open>\<^verbatim>\<open>write_excel_file\<close>\<close>

text \<open>
  \<^verbatim>\<open>pd.ExcelWriter(file_path, engine='openpyxl')\<close> checks the extension of the file
  name, which is the part of the last path component from its last dot on, and is
  empty when no character other than a dot precedes that dot: the extension without
  its dot must occur in \<^verbatim>\<open>.xlsx\<close> or in \<^verbatim>\<open>.xlsm\<close>, else the writer raises
  \<^verbatim>\<open>ValueError\<close> and no file is written. Otherwise the writer starts a workbook
  without sheets, and the \<^verbatim>\<open>with\<close> block saves that workbook to the path when the
  block is left, also when it is left by an exception.

  \<^verbatim>\<open>df.to_excel(writer, sheet_name=sheet_name, index=False)\<close> raises
  \<^verbatim>\<open>ValueError\<close> for a table of more than 1048576 rows or more than 16384 columns;
  the workbook has no sheet then, saving it fails, and what is left at the path is no
  workbook. Otherwise it creates a sheet, which has the default title \<^verbatim>\<open>Sheet\<close>, and
  sets the title of the sheet to the sheet name: the empty title, and a title with a
  backslash or one of the characters \<^verbatim>\<open>* ? : / [ ]\<close>, raise \<^verbatim>\<open>ValueError\<close>, and a
  title that differs from \<^verbatim>\<open>Sheet\<close> in letter case only gets the digit 1 appended.
  Then it writes the cells one after the other: the column names in row 1, then the
  values column by column; a table without columns writes no cell. A missing value is
  written as the empty text, a list or a dictionary as its printed form, which is a
  parameter of the model. A cell below row 1048576 raises \<^verbatim>\<open>ValueError\<close>.

  Outside the model: the fonts and borders the writer gives to the header cells, and
  the table's choice of one number type for a column (an integer of a column that
  also has a missing value is written as a floating point number of the same value).
  Texts are sequences of the characters of codes 0 to 255, and the folding of letter
  case is that of the ASCII letters.
\<close>

definition to_lower :: "char \<Rightarrow> char" where
  "to_lower c = (if is_upper c then char_of ((of_char c :: nat) + 32) else c)"

fun is_prefix :: "'a list \<Rightarrow> 'a list \<Rightarrow> bool" where
  "is_prefix [] ys = True"
| "is_prefix (x # xs) [] = False"
| "is_prefix (x # xs) (y # ys) = (x = y \<and> is_prefix xs ys)"

fun occurs_in :: "'a list \<Rightarrow> 'a list \<Rightarrow> bool" where
  "occurs_in p [] = (p = [])"
| "occurs_in p (c # cs) = (is_prefix p (c # cs) \<or> occurs_in p cs)"

definition basename :: "string \<Rightarrow> string" where
  "basename p = rev (takeWhile (\<lambda>c. c \<noteq> CHR ''/'') (rev p))"

definition splitext :: "string \<Rightarrow> string" where
  "splitext p =
     (let b = basename p;
          e = rev (takeWhile (\<lambda>c. c \<noteq> CHR ''.'') (rev b));
          root = take (length b - Suc (length e)) b
      in if CHR ''.'' \<in> set b \<and> list_ex (\<lambda>c. c \<noteq> CHR ''.'') root then CHR ''.'' # e
         else [])"

definition check_extension :: "string \<Rightarrow> bool" where
  "check_extension ext =
     (let e = (if is_prefix ''.'' ext then tl ext else ext)
      in occurs_in e ''.xlsx'' \<or> occurs_in e ''.xlsm'')"

definition invalid_title_char :: "char \<Rightarrow> bool" where
  "invalid_title_char c = (c \<in> set ''*?:/[]'' \<or> c = CHR 0x5C)"

definition set_title :: "string \<Rightarrow> exn + string" where
  "set_title title =
     (if title = [] \<or> list_ex invalid_title_char title then Inl ValueError
      else if title \<noteq> ''Sheet'' \<and> map to_lower title = ''sheet'' then Inr (title @ ''1'')
      else Inr title)"

fun excel_value :: "(json \<Rightarrow> string) \<Rightarrow> json \<Rightarrow> json" where
  "excel_value py_str JNull = JStr []"
| "excel_value py_str (JStr s) = JStr s"
| "excel_value py_str (JInt i) = JInt i"
| "excel_value py_str (JBool b) = JBool b"
| "excel_value py_str v = JStr (py_str v)"

definition excel_cells :: "dataframe \<Rightarrow> ((nat \<times> nat) \<times> json) list" where
  "excel_cells df =
     map (\<lambda>(c, label). ((1, Suc c), label)) (enumerate_from 0 (df_columns df)) @
     concat (map (\<lambda>c. map (\<lambda>(r, row). ((Suc (Suc r), Suc c), row ! c))
                          (enumerate_from 0 (df_rows df)))
               [0 ..< length (df_columns df)])"

fun write_cells ::
  "(json \<Rightarrow> string) \<Rightarrow> worksheet \<Rightarrow> ((nat \<times> nat) \<times> json) list \<Rightarrow> exn option \<times> worksheet" where
  "write_cells py_str ws [] = (None, ws)"
| "write_cells py_str ws ((k, v) # rest) =
     (if row_limit < int (fst k) then (Some ValueError, ws)
      else
        (case to_cell_value (excel_value py_str v) of
           Inl e \<Rightarrow> (Some e, ws)
         | Inr x \<Rightarrow> write_cells py_str (set_value ws k x) rest))"

definition to_excel :: "(json \<Rightarrow> string) \<Rightarrow> dataframe \<Rightarrow> exn option \<times> worksheet" where
  "to_excel py_str df = write_cells py_str [] (excel_cells df)"

definition write_excel_file ::
  "(json \<Rightarrow> string) \<Rightarrow> filesystem \<Rightarrow> string \<Rightarrow> record_set \<Rightarrow> string \<Rightarrow> result \<times> filesystem" where
  "write_excel_file py_str fs file_path data sheet_name =
     (let df = DataFrame data in
      if \<not> check_extension (splitext file_path)
      then (error_result (Unexpected ValueError), fs)
      else if row_limit < int (length (df_rows df)) \<or> 16384 < int (length (df_columns df))
      then (error_result (Unexpected IndexError), fs(file_path \<mapsto> NotWorkbook))
      else
        (case set_title sheet_name of
           Inl e \<Rightarrow> (error_result (Unexpected e), save fs file_path [(''Sheet'', [])])
         | Inr title \<Rightarrow>
             (case to_excel py_str df of
                (Some e, ws) \<Rightarrow>
                  (error_result (Unexpected e), save fs file_path [(title, ws)])
              | (None, ws) \<Rightarrow>
                  ([(''status'', JStr ''success''),
                    (''file_path'', JStr file_path),
                    (''sheet_name'', JStr sheet_name),
                    (''rows_written'', JInt (int (length data))),
                    (''columns'', JList (if \<not> df_empty df then df_columns df else []))],
                   save fs file_path [(title, ws)]))))"

subsection \<open>\<^verbatim>\<open>excel_data_summary\<close>\<close>

text \<open>
  The type labels of the columns, without floating point values: a column without
  rows, or with values of different kinds, is \<^verbatim>\<open>object\<close>; a column of integers is
  \<^verbatim>\<open>int64\<close>; a column of integers and missing values is \<^verbatim>\<open>float64\<close>; a column of
  booleans is \<^verbatim>\<open>bool\<close>. The numeric columns are those of the two number types. The
  size in memory and the descriptive statistics are numbers the model does not
  compute; they are parameters.
\<close>

definition column_values :: "dataframe \<Rightarrow> nat \<Rightarrow> json list" where
  "column_values df c = map (\<lambda>row. row ! c) (df_rows df)"

definition is_int_json :: "json \<Rightarrow> bool" where
  "is_int_json v = (case v of JInt i \<Rightarrow> True | _ \<Rightarrow> False)"

definition is_bool_json :: "json \<Rightarrow> bool" where
  "is_bool_json v = (case v of JBool b \<Rightarrow> True | _ \<Rightarrow> False)"

definition dtype :: "json list \<Rightarrow> string" where
  "dtype vs =
     (if vs = [] then ''object''
      else if list_all is_int_json vs then ''int64''
      else if list_all (\<lambda>v. is_int_json v \<or> v = JNull) vs then ''float64''
      else if list_all is_bool_json vs then ''bool''
      else ''object'')"

definition is_numeric :: "json list \<Rightarrow> bool" where
  "is_numeric vs = (dtype vs = ''int64'' \<or> dtype vs = ''float64'')"

definition null_count :: "json list \<Rightarrow> nat" where
  "null_count vs = length (filter (\<lambda>v. v = JNull) vs)"

definition excel_data_summary_body ::
  "(dataframe \<Rightarrow> json) \<Rightarrow> (json list \<Rightarrow> json) \<Rightarrow> filesystem \<Rightarrow> string \<Rightarrow> string option
     \<Rightarrow> exn + (result \<times> filesystem)" where
  "excel_data_summary_body memory_usage describe fs file_path sheet_name =
     (if \<not> path_exists fs file_path then Inr (error_result (FileNotFound file_path), fs)
      else
        (case read_excel fs file_path (given_str sheet_name) of
           Inl e \<Rightarrow> Inl e
         | Inr df \<Rightarrow>
             (let cols = enumerate_from 0 (df_columns df);
                  summary =
                    [(''file_path'', JStr file_path),
                     (''sheet_name'', sheet_name_or_default sheet_name),
                     (''shape'', JObj [(''rows'', JInt (int (length (df_rows df)))),
                                       (''columns'', JInt (int (length (df_columns df))))]),
                     (''columns'', JList (df_columns df)),
                     (''data_types'',
                        JObj (make_dict (map (\<lambda>(c, l). (label_key l, JStr (dtype (column_values df c)))) cols))),
                     (''null_counts'',
                        JObj (make_dict (map (\<lambda>(c, l). (label_key l, JInt (int (null_count (column_values df c))))) cols))),
                     (''memory_usage'', memory_usage df)];
                  numeric_columns = filter (\<lambda>(c, l). is_numeric (column_values df c)) cols
              in if length numeric_columns > 0
                 then Inr (summary @
                        [(''numeric_summary'',
                            JObj (make_dict (map (\<lambda>(c, l). (label_key l, describe (column_values df c)))
                                               numeric_columns)))], fs)
                 else Inr (summary, fs))))"

definition excel_data_summary ::
  "(dataframe \<Rightarrow> json) \<Rightarrow> (json list \<Rightarrow> json) \<Rightarrow> filesystem \<Rightarrow> string \<Rightarrow> string option
     \<Rightarrow> result \<times> filesystem" where
  "excel_data_summary memory_usage describe fs file_path sheet_name =
     catch fs (excel_data_summary_body memory_usage describe fs file_path sheet_name)"

subsection \<open>\<^verbatim>\<open>find_excel_row_by_content\<close>\<close>

text \<open>
  \<^verbatim>\<open>df[search_column]\<close> is the column of that label, the first one should several
  header cells hold the label (the reader renames the later ones); it raises
  \<^verbatim>\<open>KeyError\<close> when no column has the label. \<^verbatim>\<open>.astype(str)\<close> prints every value of the column and leaves
  a missing value missing (so the table library does from its version 3 on); an
  integer of a column of integers and missing values is a floating point number and
  is printed with the fraction \<^verbatim>\<open>.0\<close>.
  \<^verbatim>\<open>.str.contains(search_value, na=False, case=False)\<close> compiles the search value
  as a regular expression that ignores case and searches each printed value for it;
  a missing value is no match. A search value without a regular-expression
  metacharacter matches where it occurs in the printed value, letter case aside. A
  search value whose only metacharacter is the dot matches in the same way, with a
  dot standing for any one character but the line feed. What a search value with
  another metacharacter matches, or whether it compiles at all, is decided by the
  regular expression engine, a parameter of the model.
\<close>

definition print_value :: "bool \<Rightarrow> json \<Rightarrow> string option" where
  "print_value as_float v =
     (case v of
        JNull \<Rightarrow> None
      | JStr s \<Rightarrow> Some s
      | JInt i \<Rightarrow> Some (if as_float then show_int i @ ''.0'' else show_int i)
      | JBool b \<Rightarrow> Some (if b then ''True'' else ''False'')
      | _ \<Rightarrow> Some [])"

definition astype_str :: "json list \<Rightarrow> string option list" where
  "astype_str column = map (print_value (dtype column = ''float64'')) column"

fun dot_prefix :: "string \<Rightarrow> string \<Rightarrow> bool" where
  "dot_prefix [] t = True"
| "dot_prefix (c # p) [] = False"
| "dot_prefix (c # p) (d # t) =
     (((c = CHR ''.'' \<and> d \<noteq> CHR 0x0A) \<or> (c \<noteq> CHR ''.'' \<and> to_lower c = to_lower d))
      \<and> dot_prefix p t)"

fun dot_search :: "string \<Rightarrow> string \<Rightarrow> bool" where
  "dot_search p [] = (p = [])"
| "dot_search p (d # t) = (dot_prefix p (d # t) \<or> dot_search p t)"

definition is_meta :: "char \<Rightarrow> bool" where
  "is_meta c = (c \<in> set ''^$*+?{}[]|()'' \<or> c = CHR 0x5C)"

definition compile_pattern ::
  "(string \<Rightarrow> exn + (string \<Rightarrow> bool)) \<Rightarrow> string \<Rightarrow> exn + (string \<Rightarrow> bool)" where
  "compile_pattern re_compile pat =
     (if list_ex is_meta pat then re_compile pat
      else if CHR ''.'' \<in> set pat then Inr (\<lambda>t. dot_search pat t)
      else Inr (\<lambda>t. occurs_in (map to_lower pat) (map to_lower t)))"

definition get_column :: "dataframe \<Rightarrow> string \<Rightarrow> exn + json list" where
  "get_column df name =
     (case filter (\<lambda>(c, l). l = JStr name) (enumerate_from 0 (df_columns df)) of
        [] \<Rightarrow> Inl KeyError
      | (c, l) # others \<Rightarrow> Inr (column_values df c))"

definition match_rows ::
  "(string \<Rightarrow> bool) \<Rightarrow> json list \<Rightarrow> (string \<times> json) list list
     \<Rightarrow> (nat \<times> (string \<times> json) list) list" where
  "match_rows matcher column records =
     map (\<lambda>(idx, t, record). (idx, record))
       (filter (\<lambda>(idx, t, record). case t of None \<Rightarrow> False | Some s \<Rightarrow> matcher s)
          (enumerate_from 0 (zip (astype_str column) records)))"

definition find_excel_row_by_content_body ::
  "(string \<Rightarrow> exn + (string \<Rightarrow> bool)) \<Rightarrow> filesystem \<Rightarrow> string \<Rightarrow> string \<Rightarrow> string \<Rightarrow> string
     \<Rightarrow> exn + (result \<times> filesystem)" where
  "find_excel_row_by_content_body re_compile fs file_path sheet_name search_column search_value =
     (if \<not> path_exists fs file_path then Inr (error_result (FileNotFound file_path), fs)
      else
        (case read_excel fs file_path (Some sheet_name) of
           Inl e \<Rightarrow> Inl e
         | Inr df \<Rightarrow>
             (case get_column df search_column of
                Inl e \<Rightarrow> Inl e
              | Inr column \<Rightarrow>
                  (case compile_pattern re_compile search_value of
                     Inl e \<Rightarrow> Inl e
                   | Inr matcher \<Rightarrow>
                       (let matches = match_rows matcher column (to_dict_records df) in
                        if matches = []
                        then Inr ([(''found'', JBool False),
                                   (''message'', JMsg (NotFoundMsg search_value search_column))], fs)
                        else
                          Inr ([(''found'', JBool True),
                                (''search_column'', JStr search_column),
                                (''search_value'', JStr search_value),
                                (''matches'',
                                   JList (map (\<lambda>(idx, record).
                                            JObj [(''excel_row_number'', JInt (int idx + 2)),
                                                  (''pandas_index'', JInt (int idx)),
                                                  (''data'', JObj record)]) matches)),
                                (''total_matches'', JInt (int (length matches)))], fs))))))"

definition find_excel_row_by_content ::
  "(string \<Rightarrow> exn + (string \<Rightarrow> bool)) \<Rightarrow> filesystem \<Rightarrow> string \<Rightarrow> string \<Rightarrow> string \<Rightarrow> string
     \<Rightarrow> result \<times> filesystem" where
  "find_excel_row_by_content re_compile fs file_path sheet_name search_column search_value =
     catch fs (find_excel_row_by_content_body re_compile fs file_path sheet_name search_column
                 search_value)"

section \<open>Observations on files and results\<close>

text \<open>
  What the properties below speak about: the cell of a sheet of the workbook stored at
  a path, the sheets stored at a path, and the error objects of the input checks. An
  error object has the one field \<^verbatim>\<open>error\<close>; the error objects of the input checks
  are those about a missing file, a missing sheet, a sheet name already in use and
  the last remaining sheet.
\<close>

definition cell_at :: "filesystem \<Rightarrow> string \<Rightarrow> string \<Rightarrow> nat \<times> nat \<Rightarrow> cell" where
  "cell_at fs p n k =
     (case fs p of Some (Workbook wb) \<Rightarrow> get_cell (get_sheet wb n) k | _ \<Rightarrow> blank_cell)"

definition sheets_at :: "filesystem \<Rightarrow> string \<Rightarrow> string list" where
  "sheets_at fs p = (case fs p of Some (Workbook wb) \<Rightarrow> sheetnames wb | _ \<Rightarrow> [])"

fun validation_message :: "message \<Rightarrow> bool" where
  "validation_message (FileNotFound p) = True"
| "validation_message (SheetNotFound n) = True"
| "validation_message (SheetExists n) = True"
| "validation_message LastSheet = True"
| "validation_message _ = False"

definition validation_error :: "result \<Rightarrow> bool" where
  "validation_error r = (case r of [(k, JMsg m)] \<Rightarrow> k = ''error'' \<and> validation_message m | _ \<Rightarrow> False)"




text \<open>The font and the fill one call of the formatting tool assigns, if any.\<close>

definition planned_font :: "font_kwargs \<Rightarrow> exn + font option" where
  "planned_font kw = (if kwargs_empty kw then Inr None else map_sum id Some (Font kw))"

definition planned_fill :: "string option \<Rightarrow> exn + pattern_fill option" where
  "planned_fill bg =
     (case given_str bg of None \<Rightarrow> Inr None | Some b \<Rightarrow> map_sum id Some (PatternFill b))"

definition restyle :: "font option \<Rightarrow> pattern_fill option \<Rightarrow> cell \<Rightarrow> cell" where
  "restyle f p c =
     (let c1 = (case f of None \<Rightarrow> c | Some f' \<Rightarrow> c\<lparr>cfont := f'\<rparr>)
      in (case p of None \<Rightarrow> c1 | Some p' \<Rightarrow> c1\<lparr>cfill := p'\<rparr>))"

definition format_success :: "string \<Rightarrow> string \<Rightarrow> string \<Rightarrow> result" where
  "format_success file_path sheet_name cell_range =
     [(''status'', JStr ''success''),
      (''file_path'', JStr file_path),
      (''sheet_name'', JStr sheet_name),
      (''cell_range'', JStr cell_range),
      (''formatting_applied'', JBool True)]"


text \<open>An example file: one sheet \<^verbatim>\<open>S\<close> whose cell \<^verbatim>\<open>A1\<close> holds a text in a bold font
  of size 14.\<close>

definition styled_book :: workbook where
  "styled_book =
     [(''S'', [((1, 1), \<lparr>cvalue = SText ''x'',
                          cfont = \<lparr>color = None, bold = True, size = Some 14\<rparr>,
                          cfill = default_fill\<rparr>)])]"

definition styled_fs :: filesystem where
  "styled_fs = [''t.xlsx'' \<mapsto> Workbook styled_book]"

text \<open>
  The result objects an operation may return. \<open>outcome msgs shapes r\<close> says that \<open>r\<close>
  is the error object of one of the messages \<open>msgs\<close> or of a caught exception, or else
  an object without the field \<^verbatim>\<open>error\<close> whose fields are, in their order, one of the
  lists \<open>shapes\<close>. \<open>handled body r\<close> says that \<open>r\<close> is the result object the function
  returns for the outcome \<open>body\<close> of its \<^verbatim>\<open>try\<close> block: the error object with the
  text of the exception when the block raised, and the block's own result otherwise.
\<close>

fun is_unexpected :: "message \<Rightarrow> bool" where
  "is_unexpected (Unexpected e) = True"
| "is_unexpected _ = False"

definition outcome :: "message list \<Rightarrow> string list list \<Rightarrow> result \<Rightarrow> bool" where
  "outcome msgs shapes r =
     (if ''error'' \<in> set (map fst r)
      then (case r of [(k, JMsg m)] \<Rightarrow> m \<in> set msgs \<or> is_unexpected m | _ \<Rightarrow> False)
      else map fst r \<in> set shapes)"

definition handled :: "exn + (result \<times> filesystem) \<Rightarrow> result \<Rightarrow> bool" where
  "handled body r =
     (case body of
        Inl e \<Rightarrow> r = error_result (Unexpected e)
      | Inr x \<Rightarrow> r = fst x)"

text \<open>
  A second example file: sheet \<^verbatim>\<open>S\<close> holds a table with the header \<^verbatim>\<open>name\<close>,
  \<^verbatim>\<open>age\<close> and two data rows, \<^verbatim>\<open>Ann\<close> aged 30 in row 2 and a row 3 whose name cell
  is empty and whose age is 25.
\<close>

definition value_cell :: "scalar \<Rightarrow> cell" where
  "value_cell v = blank_cell\<lparr>cvalue := v\<rparr>"

definition people_book :: workbook where
  "people_book =
     [(''S'', [((1, 1), value_cell (SText ''name'')), ((1, 2), value_cell (SText ''age'')),
               ((2, 1), value_cell (SText ''Ann'')), ((2, 2), value_cell (SInt 30)),
               ((3, 2), value_cell (SInt 25))])]"

definition people_fs :: filesystem where
  "people_fs = [''p.xlsx'' \<mapsto> Workbook people_book]"


text \<open>A regular expression engine that compiles nothing; the examples below never reach
  the engine.\<close>

definition no_engine :: "string \<Rightarrow> exn + (string \<Rightarrow> bool)" where
  "no_engine pat = Inl ValueError"


definition stored :: "json \<Rightarrow> scalar" where
  "stored v = (case to_cell_value v of Inl e \<Rightarrow> SNull | Inr x \<Rightarrow> x)"

definition nonempty :: "worksheet \<Rightarrow> nat \<times> nat \<Rightarrow> bool" where
  "nonempty ws k = (\<not> is_empty_value (cvalue (get_cell ws k)))"
























section \<open>Cells, sheets and formatting\<close>

lemma map_of_set_cell: "map_of (set_cell ws k c) k' = (if k' = k then Some c else map_of ws k')"
  by (induction ws) auto

lemma get_cell_set_cell: "get_cell (set_cell ws k c) k' = (if k' = k then c else get_cell ws k')"
  by (simp add: get_cell_def map_of_set_cell)

lemma get_sheet_set_sheet:
  "n \<in> set (sheetnames wb) \<Longrightarrow>
   get_sheet (set_sheet wb n ws) n' = (if n' = n then ws else get_sheet wb n')"
  by (induction wb) (force simp: sheetnames_def)+

lemma sheetnames_set_sheet: "sheetnames (set_sheet wb n ws) = sheetnames wb"
  by (induction wb) (auto simp: sheetnames_def)


lemma format_cell_ok:
  assumes "planned_font kw = Inr f" "planned_fill bg = Inr p"
  shows "format_cell kw bg ws k = Inr (set_cell ws k (restyle f p (get_cell ws k)))"
  using assms
  by (auto simp: format_cell_def planned_font_def planned_fill_def restyle_def
      split: if_splits sum.splits option.splits)

lemma restyle_idem: "restyle f p (restyle f p c) = restyle f p c"
  by (auto simp: restyle_def split: option.splits)

lemma format_row_ok:
  assumes "planned_font kw = Inr f" "planned_fill bg = Inr p"
  shows "\<exists>ws'. format_row kw bg ws ks = Inr ws' \<and>
           (\<forall>k. get_cell ws' k =
                  (if k \<in> set ks then restyle f p (get_cell ws k) else get_cell ws k))"
proof (induction ks arbitrary: ws)
  case Nil
  then show ?case by simp
next
  case (Cons k ks)
  let ?ws1 = "set_cell ws k (restyle f p (get_cell ws k))"
  from Cons.IH [of ?ws1] obtain ws' where
    r: "format_row kw bg ?ws1 ks = Inr ws'" and
    g: "\<forall>j. get_cell ws' j =
             (if j \<in> set ks then restyle f p (get_cell ?ws1 j) else get_cell ?ws1 j)"
    by blast
  have "format_row kw bg ws (k # ks) = Inr ws'"
    using r by (simp add: format_cell_ok [OF assms])
  moreover have "\<forall>j. get_cell ws' j =
      (if j \<in> set (k # ks) then restyle f p (get_cell ws j) else get_cell ws j)"
    using g by (auto simp: get_cell_set_cell restyle_idem)
  ultimately show ?case by blast
qed

lemma format_rows_ok:
  assumes "planned_font kw = Inr f" "planned_fill bg = Inr p"
  shows "\<exists>ws'. format_rows kw bg ws rows = Inr ws' \<and>
           (\<forall>k. get_cell ws' k =
                  (if k \<in> set (concat rows) then restyle f p (get_cell ws k) else get_cell ws k))"
proof (induction rows arbitrary: ws)
  case Nil
  then show ?case by simp
next
  case (Cons row rows)
  from format_row_ok [OF assms, of ws row] obtain ws1 where
    r1: "format_row kw bg ws row = Inr ws1" and
    g1: "\<forall>k. get_cell ws1 k =
              (if k \<in> set row then restyle f p (get_cell ws k) else get_cell ws k)"
    by blast
  from Cons.IH [of ws1] obtain ws' where
    r: "format_rows kw bg ws1 rows = Inr ws'" and
    g: "\<forall>k. get_cell ws' k =
             (if k \<in> set (concat rows) then restyle f p (get_cell ws1 k) else get_cell ws1 k)"
    by blast
  have "format_rows kw bg ws (row # rows) = Inr ws'"
    using r1 r by simp
  moreover have "\<forall>k. get_cell ws' k =
      (if k \<in> set (concat (row # rows)) then restyle f p (get_cell ws k) else get_cell ws k)"
    using g g1 by (auto simp: restyle_idem)
  ultimately show ?case by blast
qed

lemma parse_coord_no_colon:
  assumes "parse_coord s = Some k"
  shows "CHR '':'' \<notin> set s"
proof -
  from assms have d: "list_all is_digit (dropWhile is_alpha s)"
    by (auto simp: parse_coord_def Let_def split: if_splits)
  have a: "list_all is_alpha (takeWhile is_alpha s)"
    by (simp add: list_all_iff) (meson set_takeWhileD)
  have nd: "\<not> is_digit CHR '':''" by (simp add: is_digit_def)
  have na: "\<not> is_alpha CHR '':''" by (simp add: is_alpha_def is_upper_def is_lower_def)
  have "set s = set (takeWhile is_alpha s) \<union> set (dropWhile is_alpha s)"
    by (metis set_append takeWhile_dropWhile_id)
  then show ?thesis
    using a d nd na by (auto simp: list_all_iff)
qed


text \<open>A range \<^verbatim>\<open>A1:C3\<close> of two coordinates is read as the rectangle between them.\<close>

lemma getitem_rectangle:
  assumes "parse_coord a = Some (r1, c1)" "parse_coord b = Some (r2, c2)"
  shows "getitem (a @ CHR '':'' # b) = Inr (CellRows (iter_rows r1 c1 r2 c2))"
proof -
  have na: "CHR '':'' \<notin> set a"
    using assms(1) by (rule parse_coord_no_colon)
  have tw: "takeWhile (\<lambda>c. c \<noteq> CHR '':'') (a @ CHR '':'' # b) = a"
    using na by (induction a) auto
  have dw: "dropWhile (\<lambda>c. c \<noteq> CHR '':'') (a @ CHR '':'' # b) = CHR '':'' # b"
    using na by (induction a) auto
  show ?thesis
    using assms by (simp add: getitem_def tw dw)
qed

lemma set_concat_iter_rows:
  "set (concat (iter_rows r1 c1 r2 c2)) = {(r, c). r1 \<le> r \<and> r \<le> r2 \<and> c1 \<le> c \<and> c \<le> c2}"
proof -
  have "\<And>r c. (r, c) \<in> set (concat (iter_rows r1 c1 r2 c2)) \<longleftrightarrow>
          r1 \<le> r \<and> r \<le> r2 \<and> c1 \<le> c \<and> c \<le> c2"
    unfolding iter_rows_def by (auto simp: image_iff)
  then show ?thesis by auto
qed

text \<open>
  The formatting tool on an existing file and sheet, with a range the library reads as
  a rectangle and colors it accepts: the call succeeds, and every cell of the
  rectangle gets the planned font and fill while every other cell of the sheet, and
  every other sheet, stays as it was.
\<close>

lemma format_excel_cells_ok:
  assumes stored: "fs p = Some (Workbook wb)"
    and sheet: "n \<in> set (sheetnames wb)"
    and range: "getitem cell_range = Inr (CellRows rows)"
    and pf: "planned_font (make_font_kwargs font_color bold_arg font_size) = Inr f"
    and pl: "planned_fill bg_color = Inr pt"
  shows "fst (format_excel_cells fs p n cell_range font_color bg_color bold_arg font_size)
           = format_success p n cell_range \<and>
         (\<forall>n' k. cell_at (snd (format_excel_cells fs p n cell_range font_color bg_color bold_arg
                                   font_size)) p n' k
           = (if n' = n \<and> k \<in> set (concat rows) then restyle f pt (cell_at fs p n k)
              else cell_at fs p n' k)) \<and>
         sheets_at (snd (format_excel_cells fs p n cell_range font_color bg_color bold_arg font_size)) p
           = sheets_at fs p"
proof -
  let ?kw = "make_font_kwargs font_color bold_arg font_size"
  from format_rows_ok [OF pf pl, of "get_sheet wb n" rows] obtain ws' where
    r: "format_rows ?kw bg_color (get_sheet wb n) rows = Inr ws'" and
    g: "\<forall>k. get_cell ws' k =
             (if k \<in> set (concat rows) then restyle f pt (get_cell (get_sheet wb n) k)
              else get_cell (get_sheet wb n) k)"
    by blast
  have run: "format_excel_cells fs p n cell_range font_color bg_color bold_arg font_size
               = (format_success p n cell_range, save fs p (set_sheet wb n ws'))"
    using stored sheet range r
    by (simp add: format_excel_cells_def format_excel_cells_body_def catch_def path_exists_def
        load_workbook_def format_selection_def format_success_def)
  have cells: "cell_at (save fs p (set_sheet wb n ws')) p n' k
          = (if n' = n \<and> k \<in> set (concat rows) then restyle f pt (cell_at fs p n k)
             else cell_at fs p n' k)" for n' k
    using stored sheet spec [OF g, of k]
    by (simp add: cell_at_def save_def get_sheet_set_sheet del: set_concat)
  have names: "sheets_at (save fs p (set_sheet wb n ws')) p = sheets_at fs p"
    using stored by (simp add: sheets_at_def save_def sheetnames_set_sheet)
  show ?thesis
    unfolding run fst_conv snd_conv using cells names by blast
qed




lemma getitem_A1B2: "getitem ''A1:B2'' = Inr (CellRows [[(1, 1), (1, 2)], [(2, 1), (2, 2)]])"
  by code_simp

text \<open>Row 1048576 is the last row of a sheet; a coordinate below it is refused.\<close>

lemma digits_val_beyond: "digits_val ''1048577'' = 1048577"
  by (simp add: digits_val_def digit_val_def)

lemma parse_coord_beyond_last_row: "parse_coord ''A1048577'' = None"
  by (simp add: parse_coord_def digits_val_beyond row_limit_def is_alpha_def is_upper_def
      is_lower_def Let_def)

lemma getitem_beyond_last_row:
  "getitem ''A1048577:A1048577'' = Inl ValueError \<and> getitem ''A1048577'' = Inl ValueError"
  by (simp add: getitem_def parse_coord_beyond_last_row)

lemma getitem_last_row: "getitem ''A1048576:A1048576'' = Inr (CellRows [[(1048576, 1)]])"
  by (simp add: getitem_def parse_coord_def digits_val_def digit_val_def row_limit_def
      is_alpha_def is_upper_def is_lower_def is_digit_def Let_def column_index_from_string_def
      letter_val_def iter_rows_def)

lemma styled_fs_file: "styled_fs ''t.xlsx'' = Some (Workbook styled_book)"
  by (simp add: styled_fs_def)

lemma styled_book_sheet: "''S'' \<in> set (sheetnames styled_book)"
  by (simp add: styled_book_def sheetnames_def)

lemma styled_cell:
  "cell_at styled_fs ''t.xlsx'' ''S'' (1, 1)
     = \<lparr>cvalue = SText ''x'',
          cfont = \<lparr>color = None, bold = True, size = Some 14\<rparr>,
          cfill = default_fill\<rparr>"
  by (simp add: cell_at_def styled_fs_def styled_book_def get_cell_def)

section \<open>Range formatting\<close>




lemma planned_nothing:
  assumes "given_str font_color = None" "\<not> bold_arg" "given_int font_size = None"
  shows "planned_font (make_font_kwargs font_color bold_arg font_size) = Inr None"
  using assms by (simp add: planned_font_def make_font_kwargs_def kwargs_empty_def)

text \<open>
  Claim C8, as the code has it. For a call of \<^verbatim>\<open>format_excel_cells\<close> on an existing
  file and sheet, with a cell range the library reads as a rectangle (two coordinates
  joined by a colon, their rows between 1 and 1048576), in which no Format Descriptor
  field is supplied (no or an empty font color, no or an empty
  background color, bold not requested, no or a zero font size): the call succeeds,
  every cell of every sheet of the file has the value, font and fill it had, and the
  result object is the one of every successful call, with
  \<^verbatim>\<open>formatting_applied\<close> true; nothing in it says that no change was made.
\<close>

theorem format_excel_cells_without_fields:
  assumes "fs p = Some (Workbook wb)"
    and "n \<in> set (sheetnames wb)"
    and "getitem cell_range = Inr (CellRows rows)"
    and "given_str font_color = None"
    and "given_str bg_color = None"
    and "\<not> bold_arg"
    and "given_int font_size = None"
  shows "fst (format_excel_cells fs p n cell_range font_color bg_color bold_arg font_size)
           = format_success p n cell_range \<and>
         map_of (fst (format_excel_cells fs p n cell_range font_color bg_color bold_arg font_size))
           ''formatting_applied'' = Some (JBool True) \<and>
         (\<forall>n' k. cell_at (snd (format_excel_cells fs p n cell_range font_color bg_color bold_arg
                                   font_size)) p n' k = cell_at fs p n' k) \<and>
         sheets_at (snd (format_excel_cells fs p n cell_range font_color bg_color bold_arg font_size)) p
           = sheets_at fs p"
proof -
  have pl: "planned_fill bg_color = Inr None"
    using assms(5) by (simp add: planned_fill_def)
  note ok = format_excel_cells_ok
    [of fs p wb n cell_range rows font_color bold_arg font_size None bg_color None,
     OF assms(1-3) planned_nothing [OF assms(4) assms(6) assms(7)] pl]
  have same: "restyle None None c = c" for c
    by (simp add: restyle_def)
  show ?thesis
    using ok by (simp add: same format_success_def del: set_concat)
qed

text \<open>The theorem at the example file, with an empty background color and size 0.\<close>

theorem format_excel_cells_without_fields_witness:
  "fst (format_excel_cells styled_fs ''t.xlsx'' ''S'' ''A1:B2'' None (Some []) False (Some 0))
     = format_success ''t.xlsx'' ''S'' ''A1:B2'' \<and>
   cell_at (snd (format_excel_cells styled_fs ''t.xlsx'' ''S'' ''A1:B2'' None (Some []) False
                   (Some 0))) ''t.xlsx'' ''S'' (1, 1)
     = \<lparr>cvalue = SText ''x'',
          cfont = \<lparr>color = None, bold = True, size = Some 14\<rparr>,
          cfill = default_fill\<rparr>"
proof -
  have h4: "given_str None = None" by (simp add: given_str_def)
  have h5: "given_str (Some []) = None" by (simp add: given_str_def)
  have h7: "given_int (Some 0) = None" by (simp add: given_int_def)
  from format_excel_cells_without_fields
    [of styled_fs "''t.xlsx''" styled_book "''S''" "''A1:B2''" _ None "Some []" False "Some 0",
     OF styled_fs_file styled_book_sheet getitem_A1B2 h4 h5 _ h7] styled_cell
  show ?thesis by simp
qed

text \<open>
  Claim C8 as stated fails: on the example file the call without any field returns
  \<^verbatim>\<open>formatting_applied\<close> true, and its result object is equal to the one of a call
  that makes the same cells red, bold and of size 20.
\<close>

theorem format_excel_cells_always_reports_applied:
  "fst (format_excel_cells styled_fs ''t.xlsx'' ''S'' ''A1:B2'' None None False None)
     = [(''status'', JStr ''success''), (''file_path'', JStr ''t.xlsx''),
        (''sheet_name'', JStr ''S''), (''cell_range'', JStr ''A1:B2''),
        (''formatting_applied'', JBool True)] \<and>
   fst (format_excel_cells styled_fs ''t.xlsx'' ''S'' ''A1:B2'' None None False None)
     = fst (format_excel_cells styled_fs ''t.xlsx'' ''S'' ''A1:B2'' (Some ''FF0000'') None True
              (Some 20))"
proof -
  have col: "rgb ''FF0000'' = Inr ''00FF0000''"
    by (simp add: rgb_def is_hex_digit_def)
  show ?thesis
    by (simp add: format_excel_cells_def format_excel_cells_body_def catch_def path_exists_def
        load_workbook_def styled_fs_def styled_book_def sheetnames_def getitem_A1B2
        format_selection_def format_cell_def make_font_kwargs_def given_str_def given_int_def
        kwargs_empty_def Font_def col)
qed

text \<open>
  A range below the last row of a sheet is refused: the call returns the error object
  of the exception and leaves the files as they were.
\<close>

lemma format_excel_cells_beyond_last_row:
  "format_excel_cells styled_fs ''t.xlsx'' ''S'' ''A1048577:A1048577'' None None True None
     = (error_result (Unexpected ValueError), styled_fs)"
  using getitem_beyond_last_row
  by (simp add: format_excel_cells_def format_excel_cells_body_def catch_def path_exists_def
      load_workbook_def styled_fs_def styled_book_def sheetnames_def)

section \<open>Sheet deletion and addition\<close>

lemma length_remove_sheet:
  "m \<in> set (sheetnames w) \<Longrightarrow> Suc (length (remove_sheet w m)) = length w"
  by (induction w) (force simp: sheetnames_def)+

lemma delete_excel_sheet_cases:
  assumes "fs p = Some (Workbook w)"
  shows "delete_excel_sheet fs p n =
     (if n \<notin> set (sheetnames w) then (error_result (SheetNotFound n), fs)
      else if length w = 1 then (error_result LastSheet, fs)
      else ([(''status'', JStr ''success''),
             (''file_path'', JStr p),
             (''deleted_sheet'', JStr n),
             (''remaining_sheets'', JList (map JStr (sheetnames (remove_sheet w n))))],
            save fs p (remove_sheet w n)))"
  using assms
  by (simp add: delete_excel_sheet_def delete_excel_sheet_body_def catch_def path_exists_def
      load_workbook_def sheetnames_def)

text \<open>
  Claim C6. When the file at the path holds a workbook of exactly one sheet,
  \<^verbatim>\<open>delete_excel_sheet\<close> naming that sheet returns the last-sheet error object and
  leaves the file system as it was. Consequently a file that holds at least one sheet
  holds at least one sheet after any call of \<^verbatim>\<open>delete_excel_sheet\<close>.
\<close>

theorem delete_excel_sheet_keeps_last_sheet:
  "(fs p = Some (Workbook wb) \<and> length wb = 1 \<and> n \<in> set (sheetnames wb) \<longrightarrow>
      delete_excel_sheet fs p n = (error_result LastSheet, fs)) \<and>
   (sheets_at fs p \<noteq> [] \<longrightarrow> sheets_at (snd (delete_excel_sheet fs p n)) p \<noteq> [])"
proof -
  have a: "delete_excel_sheet fs p n = (error_result LastSheet, fs)"
    if "fs p = Some (Workbook wb)" "length wb = 1" "n \<in> set (sheetnames wb)"
    using that by (simp add: delete_excel_sheet_cases)
  have b: "sheets_at (snd (delete_excel_sheet fs p n)) p \<noteq> []" if ne: "sheets_at fs p \<noteq> []"
  proof -
    from ne obtain w where w: "fs p = Some (Workbook w)" and "w \<noteq> []"
      by (auto simp: sheets_at_def sheetnames_def split: option.splits disk_file.splits)
    show ?thesis
    proof (cases "n \<in> set (sheetnames w) \<and> length w \<noteq> 1")
      case True
      then have "Suc (length (remove_sheet w n)) = length w" "length w \<noteq> 1"
        by (simp_all add: length_remove_sheet)
      then have "remove_sheet w n \<noteq> []"
        by auto
      then show ?thesis
        using True w by (simp add: delete_excel_sheet_cases sheets_at_def save_def sheetnames_def)
    next
      case False
      then show ?thesis
        using w ne by (auto simp: delete_excel_sheet_cases)
    qed
  qed
  show ?thesis using a b by blast
qed

text \<open>The theorem at the example file, whose only sheet is \<^verbatim>\<open>S\<close>.\<close>

theorem delete_excel_sheet_keeps_last_sheet_witness:
  "delete_excel_sheet styled_fs ''t.xlsx'' ''S'' = (error_result LastSheet, styled_fs) \<and>
   sheets_at (snd (delete_excel_sheet styled_fs ''t.xlsx'' ''S'')) ''t.xlsx'' \<noteq> []"
proof -
  have one: "length styled_book = 1"
    by (simp add: styled_book_def)
  have ne: "sheets_at styled_fs ''t.xlsx'' \<noteq> []"
    by (simp add: sheets_at_def styled_fs_def styled_book_def sheetnames_def)
  from delete_excel_sheet_keeps_last_sheet [of styled_fs "''t.xlsx''" styled_book "''S''"]
    styled_fs_file one styled_book_sheet ne
  show ?thesis by blast
qed

text \<open>
  Claim C9. When no file exists at the path and the new sheet is to be named
  \<^verbatim>\<open>Sheet\<close>, \<^verbatim>\<open>add_excel_sheet\<close> returns the already-exists error object: the name
  collides with the default sheet of the workbook just created in memory. The file
  system is as it was; in particular there is still no file at the path.
\<close>

theorem add_excel_sheet_default_name_collides:
  "fs p = None \<Longrightarrow>
   add_excel_sheet fs p ''Sheet'' data = (error_result (SheetExists ''Sheet''), fs) \<and>
   snd (add_excel_sheet fs p ''Sheet'' data) p = None"
  by (simp add: add_excel_sheet_def add_excel_sheet_body_def catch_def path_exists_def
      new_workbook_def sheetnames_def)

text \<open>The theorem on the empty file system, with data supplied.\<close>

theorem add_excel_sheet_default_name_collides_witness:
  "add_excel_sheet Map.empty ''new.xlsx'' ''Sheet'' (Some [[(''a'', JInt 1)]])
     = (error_result (SheetExists ''Sheet''), Map.empty) \<and>
   snd (add_excel_sheet Map.empty ''new.xlsx'' ''Sheet'' (Some [[(''a'', JInt 1)]])) ''new.xlsx''
     = None"
  using add_excel_sheet_default_name_collides
    [of Map.empty "''new.xlsx''" "Some [[(''a'', JInt 1)]]"]
  by simp


section \<open>Errors of the input checks\<close>

lemma catch_validation:
  assumes "validation_error (fst (catch fs body))"
    and "\<And>r fs'. body = Inr (r, fs') \<Longrightarrow> validation_error r \<Longrightarrow> fs' = fs"
  shows "snd (catch fs body) = fs"
  using assms
  by (cases body) (auto simp: catch_def validation_error_def error_result_def)

lemma validation_error_result [simp]:
  "validation_error (error_result m) = validation_message m"
  by (simp add: validation_error_def error_result_def)

lemma update_body_validation:
  "update_excel_cell_body fs p n row column v = Inr (r, fs') \<Longrightarrow> validation_error r \<Longrightarrow> fs' = fs"
  by (auto simp: update_excel_cell_body_def validation_error_def Let_def
      split: if_splits sum.splits)

lemma format_body_validation:
  "format_excel_cells_body fs p n cell_range font_color bg_color bold_arg font_size = Inr (r, fs')
   \<Longrightarrow> validation_error r \<Longrightarrow> fs' = fs"
  by (auto simp: format_excel_cells_body_def validation_error_def
      split: if_splits sum.splits)

lemma delete_body_validation:
  "delete_excel_sheet_body fs p n = Inr (r, fs') \<Longrightarrow> validation_error r \<Longrightarrow> fs' = fs"
  by (auto simp: delete_excel_sheet_body_def validation_error_def
      split: if_splits sum.splits)

lemma add_body_validation:
  "add_excel_sheet_body fs p n data = Inr (r, fs') \<Longrightarrow> validation_error r \<Longrightarrow> fs' = fs"
  by (auto simp: add_excel_sheet_body_def validation_error_def
      split: if_splits sum.splits)

text \<open>
  Claim C10. For \<^verbatim>\<open>update_excel_cell\<close>, \<^verbatim>\<open>format_excel_cells\<close>,
  \<^verbatim>\<open>delete_excel_sheet\<close> and \<^verbatim>\<open>add_excel_sheet\<close>: whenever the result is the error
  object of an input check (file not found, sheet not found, sheet name already in
  use, last remaining sheet), the file system after the call is the file system
  before it; the check returns before any save.
\<close>

theorem validation_errors_leave_file:
  "(validation_error (fst (update_excel_cell fs p n row column v)) \<longrightarrow>
      snd (update_excel_cell fs p n row column v) = fs) \<and>
   (validation_error (fst (format_excel_cells fs p n cell_range font_color bg_color bold_arg font_size)) \<longrightarrow>
      snd (format_excel_cells fs p n cell_range font_color bg_color bold_arg font_size) = fs) \<and>
   (validation_error (fst (delete_excel_sheet fs p n)) \<longrightarrow>
      snd (delete_excel_sheet fs p n) = fs) \<and>
   (validation_error (fst (add_excel_sheet fs p n data)) \<longrightarrow>
      snd (add_excel_sheet fs p n data) = fs)"
  unfolding update_excel_cell_def format_excel_cells_def delete_excel_sheet_def add_excel_sheet_def
  using catch_validation update_body_validation format_body_validation delete_body_validation
    add_body_validation
  by meson

text \<open>
  The theorem at the example file: a missing sheet for the cell update and the
  formatting, a missing file for the deletion, a name in use for the addition.
\<close>

theorem validation_errors_leave_file_witness:
  "validation_error (fst (update_excel_cell styled_fs ''t.xlsx'' ''Nope'' 1 ''A'' (JInt 1))) \<and>
   snd (update_excel_cell styled_fs ''t.xlsx'' ''Nope'' 1 ''A'' (JInt 1)) = styled_fs \<and>
   validation_error (fst (format_excel_cells styled_fs ''t.xlsx'' ''Nope'' ''A1:B2'' None None True None)) \<and>
   snd (format_excel_cells styled_fs ''t.xlsx'' ''Nope'' ''A1:B2'' None None True None) = styled_fs \<and>
   validation_error (fst (delete_excel_sheet styled_fs ''missing.xlsx'' ''S'')) \<and>
   snd (delete_excel_sheet styled_fs ''missing.xlsx'' ''S'') = styled_fs \<and>
   validation_error (fst (add_excel_sheet styled_fs ''t.xlsx'' ''S'' None)) \<and>
   snd (add_excel_sheet styled_fs ''t.xlsx'' ''S'' None) = styled_fs"
proof -
  have u: "validation_error (fst (update_excel_cell styled_fs ''t.xlsx'' ''Nope'' 1 ''A'' (JInt 1)))"
    by (simp add: update_excel_cell_def update_excel_cell_body_def catch_def path_exists_def
        load_workbook_def styled_fs_def styled_book_def sheetnames_def)
  have f: "validation_error (fst (format_excel_cells styled_fs ''t.xlsx'' ''Nope'' ''A1:B2'' None None
                                    True None))"
    by (simp add: format_excel_cells_def format_excel_cells_body_def catch_def path_exists_def
        load_workbook_def styled_fs_def styled_book_def sheetnames_def)
  have d: "validation_error (fst (delete_excel_sheet styled_fs ''missing.xlsx'' ''S''))"
    by (simp add: delete_excel_sheet_def delete_excel_sheet_body_def catch_def path_exists_def
        styled_fs_def)
  have a: "validation_error (fst (add_excel_sheet styled_fs ''t.xlsx'' ''S'' None))"
    by (simp add: add_excel_sheet_def add_excel_sheet_body_def catch_def path_exists_def
        load_workbook_def styled_fs_def styled_book_def sheetnames_def)
  from validation_errors_leave_file
    [of styled_fs "''t.xlsx''" "''Nope''" 1 "''A''" "JInt 1" "''A1:B2''" None None True None None]
    validation_errors_leave_file
    [of styled_fs "''missing.xlsx''" "''S''" 1 "''A''" "JInt 1" "''A1:B2''" None None True None None]
    validation_errors_leave_file
    [of styled_fs "''t.xlsx''" "''S''" 1 "''A''" "JInt 1" "''A1:B2''" None None True None None]
    u f d a
  show ?thesis by blast
qed

section \<open>Result objects\<close>

lemma outcome_error [simp]:
  "outcome msgs shapes (error_result m) \<longleftrightarrow> m \<in> set msgs \<or> is_unexpected m"
  by (simp add: outcome_def error_result_def)

lemma catch_outcome:
  assumes "\<And>r fs'. body = Inr (r, fs') \<Longrightarrow> outcome msgs shapes r"
  shows "outcome msgs shapes (fst (catch fs body))"
  using assms by (cases body) (auto simp: catch_def)

lemma catch_handled: "handled body (fst (catch fs body))"
  by (simp add: handled_def catch_def split: sum.splits)

lemma read_body_outcome:
  "read_excel_file_body fs p sheet = Inr (r, fs') \<Longrightarrow>
   outcome [FileNotFound p, UnsupportedFormat]
     [[''file_path'', ''sheet_name'', ''shape'', ''columns'', ''data'', ''head'', ''note'']] r"
  by (auto simp: read_excel_file_body_def outcome_def error_result_def split: if_splits sum.splits)

lemma list_body_outcome:
  "list_excel_sheets_body fs p = Inr (r, fs') \<Longrightarrow>
   outcome [FileNotFound p] [[''file_path'', ''sheets'', ''total_sheets'']] r"
  by (auto simp: list_excel_sheets_body_def outcome_def error_result_def split: if_splits sum.splits)

lemma update_body_outcome:
  "update_excel_cell_body fs p n row column v = Inr (r, fs') \<Longrightarrow>
   outcome [FileNotFound p, SheetNotFound n]
     [[''status'', ''file_path'', ''sheet_name'', ''cell'', ''value'']] r"
  by (auto simp: update_excel_cell_body_def outcome_def error_result_def Let_def split: if_splits sum.splits)

lemma format_body_outcome:
  "format_excel_cells_body fs p n cell_range font_color bg_color bold_arg font_size = Inr (r, fs')
   \<Longrightarrow> outcome [FileNotFound p, SheetNotFound n]
         [[''status'', ''file_path'', ''sheet_name'', ''cell_range'', ''formatting_applied'']] r"
  by (auto simp: format_excel_cells_body_def outcome_def error_result_def split: if_splits sum.splits)

lemma add_body_outcome:
  "add_excel_sheet_body fs p n data = Inr (r, fs') \<Longrightarrow>
   outcome [SheetExists n] [[''status'', ''file_path'', ''sheet_name'', ''rows_added'']] r"
  by (auto simp: add_excel_sheet_body_def outcome_def error_result_def split: if_splits sum.splits)

lemma delete_body_outcome:
  "delete_excel_sheet_body fs p n = Inr (r, fs') \<Longrightarrow>
   outcome [FileNotFound p, SheetNotFound n, LastSheet]
     [[''status'', ''file_path'', ''deleted_sheet'', ''remaining_sheets'']] r"
  by (auto simp: delete_excel_sheet_body_def outcome_def error_result_def split: if_splits sum.splits)

lemma summary_body_outcome:
  "excel_data_summary_body mem descr fs p sheet = Inr (r, fs') \<Longrightarrow>
   outcome [FileNotFound p]
     [[''file_path'', ''sheet_name'', ''shape'', ''columns'', ''data_types'', ''null_counts'',
       ''memory_usage''],
      [''file_path'', ''sheet_name'', ''shape'', ''columns'', ''data_types'', ''null_counts'',
       ''memory_usage'', ''numeric_summary'']] r"
  by (auto simp: excel_data_summary_body_def outcome_def error_result_def Let_def split: if_splits sum.splits)

lemma find_body_outcome:
  "find_excel_row_by_content_body re fs p n col v = Inr (r, fs') \<Longrightarrow>
   outcome [FileNotFound p]
     [[''found'', ''message''],
      [''found'', ''search_column'', ''search_value'', ''matches'', ''total_matches'']] r"
  by (auto simp: find_excel_row_by_content_body_def outcome_def error_result_def Let_def
      split: if_splits sum.splits)

lemma write_outcome:
  "outcome [] [[''status'', ''file_path'', ''sheet_name'', ''rows_written'', ''columns'']]
     (fst (write_excel_file py_str fs p data n))"
  by (auto simp: write_excel_file_def Let_def outcome_def error_result_def
      split: sum.splits prod.splits option.splits)

text \<open>
  Claim C2. For every input, each of the nine tool functions returns a result object
  of one of two kinds. The one kind is the error object, which has the single field
  \<^verbatim>\<open>error\<close> holding a message: the message of one of the function's own input
  checks (file not found, unsupported format, sheet not found, sheet already there,
  last sheet), or the text of an exception. The other kind is a success object, which
  has no field \<^verbatim>\<open>error\<close> and has exactly the fields the function enumerates, in
  their order. Every exception that the body of a function raises is converted: the
  function then returns the error object made of that exception, and when the body
  returns, the function returns the result of the body. \<^verbatim>\<open>write_excel_file\<close> has no input check of its own; whatever fails in it
  is reported as the error object of the exception. In particular, each of the seven
  functions that need an existing file returns the error object of the
  file-not-found message when there is no file at the path.
\<close>

theorem every_operation_returns_result_object:
  "outcome [FileNotFound p, UnsupportedFormat]
     [[''file_path'', ''sheet_name'', ''shape'', ''columns'', ''data'', ''head'', ''note'']]
     (fst (read_excel_file fs p sheet)) \<and>
   handled (read_excel_file_body fs p sheet) (fst (read_excel_file fs p sheet)) \<and>
   outcome [FileNotFound p] [[''file_path'', ''sheets'', ''total_sheets'']]
     (fst (list_excel_sheets fs p)) \<and>
   handled (list_excel_sheets_body fs p) (fst (list_excel_sheets fs p)) \<and>
   outcome [] [[''status'', ''file_path'', ''sheet_name'', ''rows_written'', ''columns'']]
     (fst (write_excel_file py_str fs p data n)) \<and>
   outcome [FileNotFound p, SheetNotFound n]
     [[''status'', ''file_path'', ''sheet_name'', ''cell'', ''value'']]
     (fst (update_excel_cell fs p n row column v)) \<and>
   handled (update_excel_cell_body fs p n row column v) (fst (update_excel_cell fs p n row column v)) \<and>
   outcome [FileNotFound p, SheetNotFound n]
     [[''status'', ''file_path'', ''sheet_name'', ''cell_range'', ''formatting_applied'']]
     (fst (format_excel_cells fs p n cell_range font_color bg_color bold_arg font_size)) \<and>
   handled (format_excel_cells_body fs p n cell_range font_color bg_color bold_arg font_size)
     (fst (format_excel_cells fs p n cell_range font_color bg_color bold_arg font_size)) \<and>
   outcome [SheetExists n] [[''status'', ''file_path'', ''sheet_name'', ''rows_added'']]
     (fst (add_excel_sheet fs p n opt_data)) \<and>
   handled (add_excel_sheet_body fs p n opt_data) (fst (add_excel_sheet fs p n opt_data)) \<and>
   outcome [FileNotFound p, SheetNotFound n, LastSheet]
     [[''status'', ''file_path'', ''deleted_sheet'', ''remaining_sheets'']]
     (fst (delete_excel_sheet fs p n)) \<and>
   handled (delete_excel_sheet_body fs p n) (fst (delete_excel_sheet fs p n)) \<and>
   outcome [FileNotFound p]
     [[''file_path'', ''sheet_name'', ''shape'', ''columns'', ''data_types'', ''null_counts'',
       ''memory_usage''],
      [''file_path'', ''sheet_name'', ''shape'', ''columns'', ''data_types'', ''null_counts'',
       ''memory_usage'', ''numeric_summary'']]
     (fst (excel_data_summary memory_usage describe fs p sheet)) \<and>
   handled (excel_data_summary_body memory_usage describe fs p sheet)
     (fst (excel_data_summary memory_usage describe fs p sheet)) \<and>
   outcome [FileNotFound p]
     [[''found'', ''message''],
      [''found'', ''search_column'', ''search_value'', ''matches'', ''total_matches'']]
     (fst (find_excel_row_by_content re_compile fs p n search_column search_value)) \<and>
   handled (find_excel_row_by_content_body re_compile fs p n search_column search_value)
     (fst (find_excel_row_by_content re_compile fs p n search_column search_value)) \<and>
   (fs p = None \<longrightarrow>
      fst (read_excel_file fs p sheet) = error_result (FileNotFound p) \<and>
      fst (list_excel_sheets fs p) = error_result (FileNotFound p) \<and>
      fst (update_excel_cell fs p n row column v) = error_result (FileNotFound p) \<and>
      fst (format_excel_cells fs p n cell_range font_color bg_color bold_arg font_size)
        = error_result (FileNotFound p) \<and>
      fst (delete_excel_sheet fs p n) = error_result (FileNotFound p) \<and>
      fst (excel_data_summary memory_usage describe fs p sheet) = error_result (FileNotFound p) \<and>
      fst (find_excel_row_by_content re_compile fs p n search_column search_value)
        = error_result (FileNotFound p))"
proof -
  have missing:
    "fst (read_excel_file fs p sheet) = error_result (FileNotFound p) \<and>
     fst (list_excel_sheets fs p) = error_result (FileNotFound p) \<and>
     fst (update_excel_cell fs p n row column v) = error_result (FileNotFound p) \<and>
     fst (format_excel_cells fs p n cell_range font_color bg_color bold_arg font_size)
       = error_result (FileNotFound p) \<and>
     fst (delete_excel_sheet fs p n) = error_result (FileNotFound p) \<and>
     fst (excel_data_summary memory_usage describe fs p sheet) = error_result (FileNotFound p) \<and>
     fst (find_excel_row_by_content re_compile fs p n search_column search_value)
       = error_result (FileNotFound p)"
    if "fs p = None"
    using that
    by (simp add: read_excel_file_def read_excel_file_body_def list_excel_sheets_def
        list_excel_sheets_body_def update_excel_cell_def update_excel_cell_body_def
        format_excel_cells_def format_excel_cells_body_def delete_excel_sheet_def
        delete_excel_sheet_body_def excel_data_summary_def excel_data_summary_body_def
        find_excel_row_by_content_def find_excel_row_by_content_body_def catch_def
        path_exists_def)
  have rest:
    "outcome [FileNotFound p, UnsupportedFormat]
       [[''file_path'', ''sheet_name'', ''shape'', ''columns'', ''data'', ''head'', ''note'']]
       (fst (read_excel_file fs p sheet)) \<and>
     handled (read_excel_file_body fs p sheet) (fst (read_excel_file fs p sheet)) \<and>
     outcome [FileNotFound p] [[''file_path'', ''sheets'', ''total_sheets'']]
       (fst (list_excel_sheets fs p)) \<and>
     handled (list_excel_sheets_body fs p) (fst (list_excel_sheets fs p)) \<and>
     outcome [] [[''status'', ''file_path'', ''sheet_name'', ''rows_written'', ''columns'']]
       (fst (write_excel_file py_str fs p data n)) \<and>
     outcome [FileNotFound p, SheetNotFound n]
       [[''status'', ''file_path'', ''sheet_name'', ''cell'', ''value'']]
       (fst (update_excel_cell fs p n row column v)) \<and>
     handled (update_excel_cell_body fs p n row column v) (fst (update_excel_cell fs p n row column v)) \<and>
     outcome [FileNotFound p, SheetNotFound n]
       [[''status'', ''file_path'', ''sheet_name'', ''cell_range'', ''formatting_applied'']]
       (fst (format_excel_cells fs p n cell_range font_color bg_color bold_arg font_size)) \<and>
     handled (format_excel_cells_body fs p n cell_range font_color bg_color bold_arg font_size)
       (fst (format_excel_cells fs p n cell_range font_color bg_color bold_arg font_size)) \<and>
     outcome [SheetExists n] [[''status'', ''file_path'', ''sheet_name'', ''rows_added'']]
       (fst (add_excel_sheet fs p n opt_data)) \<and>
     handled (add_excel_sheet_body fs p n opt_data) (fst (add_excel_sheet fs p n opt_data)) \<and>
     outcome [FileNotFound p, SheetNotFound n, LastSheet]
       [[''status'', ''file_path'', ''deleted_sheet'', ''remaining_sheets'']]
       (fst (delete_excel_sheet fs p n)) \<and>
     handled (delete_excel_sheet_body fs p n) (fst (delete_excel_sheet fs p n)) \<and>
     outcome [FileNotFound p]
       [[''file_path'', ''sheet_name'', ''shape'', ''columns'', ''data_types'', ''null_counts'',
         ''memory_usage''],
        [''file_path'', ''sheet_name'', ''shape'', ''columns'', ''data_types'', ''null_counts'',
         ''memory_usage'', ''numeric_summary'']]
       (fst (excel_data_summary memory_usage describe fs p sheet)) \<and>
     handled (excel_data_summary_body memory_usage describe fs p sheet)
       (fst (excel_data_summary memory_usage describe fs p sheet)) \<and>
     outcome [FileNotFound p]
       [[''found'', ''message''],
        [''found'', ''search_column'', ''search_value'', ''matches'', ''total_matches'']]
       (fst (find_excel_row_by_content re_compile fs p n search_column search_value)) \<and>
     handled (find_excel_row_by_content_body re_compile fs p n search_column search_value)
       (fst (find_excel_row_by_content re_compile fs p n search_column search_value))"
    unfolding read_excel_file_def list_excel_sheets_def update_excel_cell_def format_excel_cells_def
      add_excel_sheet_def delete_excel_sheet_def excel_data_summary_def
      find_excel_row_by_content_def
    by (intro conjI catch_outcome catch_handled write_outcome)
       (erule read_body_outcome list_body_outcome update_body_outcome
          format_body_outcome add_body_outcome delete_body_outcome
          summary_body_outcome find_body_outcome)+
  show ?thesis
    using rest missing by (simp only: simp_thms) blast
qed

text \<open>
  The theorem at the first example file. Deleting its only sheet fails an input
  check: the result is the error object of the last-sheet message. Formatting with a
  color that is no color raises in the body: the result is the error object of the
  exception. Listing the sheets of a file that is not there gives the error object
  of the file-not-found message.
\<close>

theorem every_operation_returns_result_object_witness:
  "fst (delete_excel_sheet styled_fs ''t.xlsx'' ''S'') = error_result LastSheet \<and>
   outcome [FileNotFound ''t.xlsx'', SheetNotFound ''S'', LastSheet]
     [[''status'', ''file_path'', ''deleted_sheet'', ''remaining_sheets'']]
     (fst (delete_excel_sheet styled_fs ''t.xlsx'' ''S'')) \<and>
   format_excel_cells_body styled_fs ''t.xlsx'' ''S'' ''A1:B2'' (Some ''red'') None False None
     = Inl ValueError \<and>
   fst (format_excel_cells styled_fs ''t.xlsx'' ''S'' ''A1:B2'' (Some ''red'') None False None)
     = error_result (Unexpected ValueError) \<and>
   fst (list_excel_sheets styled_fs ''missing.xlsx'') = error_result (FileNotFound ''missing.xlsx'')"
proof -
  have none: "styled_fs ''missing.xlsx'' = None"
    by (simp add: styled_fs_def)
  from every_operation_returns_result_object
    [of "''missing.xlsx''" styled_fs None "\<lambda>v. []" "[]" "''S''" 1 "''A''" JNull "''A1:B2''" None
        None False None None "\<lambda>df. JNull" "\<lambda>vs. JNull" "\<lambda>pat. Inl ValueError" "''a''" "''b''"]
    none
  have l: "fst (list_excel_sheets styled_fs ''missing.xlsx'')
             = error_result (FileNotFound ''missing.xlsx'')"
    by blast
  have d: "fst (delete_excel_sheet styled_fs ''t.xlsx'' ''S'') = error_result LastSheet"
    using delete_excel_sheet_cases [of styled_fs "''t.xlsx''" styled_book "''S''"] styled_fs_file
    by (simp add: styled_book_def sheetnames_def)
  have f: "format_excel_cells_body styled_fs ''t.xlsx'' ''S'' ''A1:B2'' (Some ''red'') None False None
             = Inl ValueError"
    by (simp add: format_excel_cells_body_def path_exists_def load_workbook_def styled_fs_def
        styled_book_def sheetnames_def getitem_A1B2 format_selection_def format_cell_def
        make_font_kwargs_def given_str_def given_int_def kwargs_empty_def Font_def rgb_def)
  from every_operation_returns_result_object
    [of "''t.xlsx''" styled_fs None "\<lambda>v. []" "[]" "''S''" 1 "''A''" JNull "''A1:B2''" "Some ''red''"
        None False None None "\<lambda>df. JNull" "\<lambda>vs. JNull" "\<lambda>pat. Inl ValueError" "''a''" "''b''"]
  have o: "outcome [FileNotFound ''t.xlsx'', SheetNotFound ''S'', LastSheet]
             [[''status'', ''file_path'', ''deleted_sheet'', ''remaining_sheets'']]
             (fst (delete_excel_sheet styled_fs ''t.xlsx'' ''S''))"
    and h: "handled (format_excel_cells_body styled_fs ''t.xlsx'' ''S'' ''A1:B2'' (Some ''red'') None False None)
              (fst (format_excel_cells styled_fs ''t.xlsx'' ''S'' ''A1:B2'' (Some ''red'') None False None))"
    by blast+
  from h f have "fst (format_excel_cells styled_fs ''t.xlsx'' ''S'' ''A1:B2'' (Some ''red'') None
                        False None)
                   = error_result (Unexpected ValueError)"
    by (simp add: handled_def)
  with d o f l show ?thesis by blast
qed

section \<open>Row search\<close>




lemma length_astype_str [simp]: "length (astype_str column) = length column"
  by (simp add: astype_str_def)


lemma length_column_values [simp]: "length (column_values df c) = length (df_rows df)"
  by (simp add: column_values_def)

lemma length_to_dict_records [simp]: "length (to_dict_records df) = length (df_rows df)"
  by (simp add: to_dict_records_def)








text \<open>
  A row whose value is missing is not found, whatever the search value: the search
  value \<^verbatim>\<open>nan\<close> in the column \<^verbatim>\<open>name\<close> finds nothing, although the name of row 3
  is missing.
\<close>

lemma find_excel_row_by_content_skips_missing_value:
  "fst (find_excel_row_by_content no_engine people_fs ''p.xlsx'' ''S'' ''name'' ''nan'')
     = [(''found'', JBool False), (''message'', JMsg (NotFoundMsg ''nan'' ''name''))]"
  by code_simp

section \<open>Writing tables and reading sheets\<close>

lemma get_cell_absent: "k \<notin> fst ` set ws \<Longrightarrow> get_cell ws k = blank_cell"
  by (simp add: get_cell_def map_of_eq_None_iff [THEN iffD2])

lemma blank_is_empty: "is_empty_value (cvalue blank_cell)"
  by (simp add: blank_cell_def is_empty_value_def)

lemma used_keys_iff: "k \<in> set (used_keys ws) \<longleftrightarrow> nonempty ws k"
proof (cases "k \<in> fst ` set ws")
  case True
  then show ?thesis by (auto simp: used_keys_def nonempty_def)
next
  case False
  then show ?thesis
    using blank_is_empty by (auto simp: used_keys_def nonempty_def get_cell_absent)
qed

lemma fold_max_Max: "fold max xs (a::nat) = Max (insert a (set xs))"
  using Max.set_eq_fold [of a xs] by simp






text \<open>The cut of a text keeps a text of at most 32767 characters, and keeps the start of
  every text.\<close>

lemma cut_text_take: "cut_text s = take 32767 s"
  by (simp add: cut_text_def)



lemma is_formula_cut: "is_formula (cut_text s) = is_formula s"
proof (cases s)
  case Nil
  then show ?thesis by (simp add: cut_text_take)
next
  case (Cons c t)
  then show ?thesis
    by (cases t) (simp_all add: cut_text_take is_formula_def)
qed

lemma cut_text_empty: "cut_text s = [] \<longleftrightarrow> s = []"
  by (cases s) (simp_all add: cut_text_take)













lemma length_row_values [simp]: "length (row_values cols row) = length cols"
  by (simp add: row_values_def)



















section \<open>Writing a file\<close>











text \<open>
  Nor is it written under every sheet name: for the empty sheet name, and for a sheet
  name with a slash, the title is refused, the result is an error object, and the
  file that is left holds one empty sheet of the default title.
\<close>

lemma write_excel_file_refuses_title:
  "write_excel_file py_str fs ''t.xlsx'' [[(''a'', JInt 1)]] []
     = (error_result (Unexpected ValueError), fs(''t.xlsx'' \<mapsto> Workbook [(''Sheet'', [])])) \<and>
   write_excel_file py_str fs ''t.xlsx'' [[(''a'', JInt 1)]] ''a/b''
     = (error_result (Unexpected ValueError), fs(''t.xlsx'' \<mapsto> Workbook [(''Sheet'', [])]))"
proof -
  have e: "check_extension (splitext ''t.xlsx'')"
    by code_simp
  have c: "record_set_columns [[(''a'', JInt 1)]] = [''a'']"
    by code_simp
  have t: "set_title [] = Inl ValueError" "set_title ''a/b'' = Inl ValueError"
    by code_simp+
  show ?thesis
    by (simp add: write_excel_file_def e t save_def DataFrame_def c row_limit_def)
qed

section \<open>Reading back what was written\<close>

lemma read_cell_null_iff: "read_cell ws k = JNull \<longleftrightarrow> \<not> nonempty ws k"
  by (cases "cvalue (get_cell ws k)") (auto simp: read_cell_def nonempty_def is_empty_value_def)






section \<open>Writing and then reading\<close>






text \<open>
  The row count read back is smaller than the length of the input when the last row
  holds no value: the reader stops at the last row with a value.
\<close>

lemma write_then_read_drops_empty_last_row:
  "map_of (fst (read_excel_file
                  (snd (write_excel_file (\<lambda>v. []) Map.empty ''t.xlsx''
                          [[(''a'', JInt 1)], [(''a'', JNull)]] ''S1''))
                  ''t.xlsx'' (Some ''S1''))) ''shape''
     = Some (JObj [(''rows'', JInt 1), (''columns'', JInt 1)])"
  by code_simp

text \<open>
  A row without a value above the last row is read as a row, also in a sheet of one
  column.
\<close>

lemma write_then_read_keeps_empty_inner_row:
  "map_of (fst (read_excel_file
                  (snd (write_excel_file (\<lambda>v. []) Map.empty ''t.xlsx''
                          [[(''a'', JInt 1)], [(''a'', JNull)], [(''a'', JInt 3)]] ''S1''))
                  ''t.xlsx'' (Some ''S1''))) ''shape''
     = Some (JObj [(''rows'', JInt 3), (''columns'', JInt 1)])"
  by code_simp

section \<open>Updating a cell and then reading\<close>





lemma last_col_attained: "last_col ws \<noteq> 0 \<Longrightarrow> \<exists>r. nonempty ws (r, last_col ws)"
proof -
  assume nz: "last_col ws \<noteq> 0"
  have "Max (insert 0 (set (map snd (used_keys ws)))) \<in> insert 0 (set (map snd (used_keys ws)))"
    by (rule Max_in) auto
  then have "last_col ws \<in> snd ` set (used_keys ws)"
    using nz by (auto simp: last_col_def fold_max_Max)
  then show ?thesis
    by (auto simp: used_keys_iff)
qed


















text \<open>
  Row 1 is the header: the text \<^verbatim>\<open>id\<close> written to \<^verbatim>\<open>A1\<close>, as the test scripts of
  the repository write to row 1, is read back as the label of the first column and
  is in no record.
\<close>

lemma update_then_read_header_row:
  "map_of (fst (read_excel_file
                  (snd (update_excel_cell people_fs ''p.xlsx'' ''S'' 1 ''A'' (JStr ''id'')))
                  ''p.xlsx'' (Some ''S''))) ''columns''
     = Some (JList [JStr ''id'', JStr ''age''])"
  by code_simp

text \<open>The empty text written to \<^verbatim>\<open>A2\<close> is read back as a missing value.\<close>

lemma update_then_read_empty_text:
  "map_of (fst (read_excel_file
                  (snd (update_excel_cell people_fs ''p.xlsx'' ''S'' 2 ''A'' (JStr [])))
                  ''p.xlsx'' (Some ''S''))) ''data''
     = Some (JList [JObj [(''name'', JNull), (''age'', JInt 30), (''_excel_row_number'', JInt 2)],
                    JObj [(''name'', JNull), (''age'', JInt 25), (''_excel_row_number'', JInt 3)]])"
  by code_simp

end
